theory Spec2Isabelle
  imports Main "HOL-Library.Char_ord" "HOL-Library.List_Lexorder" "HOL-Library.Multiset"
begin

section \<open>JavaScript strings\<close>

text \<open>
  The program is TypeScript. Its strings are modelled as \<^typ>\<open>string\<close>: a list of
  8-bit characters, each standing for the code unit of the same number, so that the
  order of \<^theory_text>\<open>Char_ord\<close> and \<^theory_text>\<open>List_Lexorder\<close> is the order in which
  JavaScript compares strings. Code units above 255 are outside the model.
\<close>

text \<open>\<^verbatim>\<open>s.startsWith(t)\<close>\<close>

definition startsWith :: "string \<Rightarrow> string \<Rightarrow> bool" where
  "startsWith s t = (take (length t) s = t)"

text \<open>\<^verbatim>\<open>s.includes(t)\<close>: \<open>t\<close> occurs in \<open>s\<close> at some position.\<close>

fun js_includes :: "string \<Rightarrow> string \<Rightarrow> bool" where
  "js_includes [] t = (t = [])"
| "js_includes (c # cs) t = (startsWith (c # cs) t \<or> js_includes cs t)"

text \<open>\<^verbatim>\<open>s.substring(n)\<close>\<close>

definition substring :: "string \<Rightarrow> nat \<Rightarrow> string" where
  "substring s n = drop n s"

text \<open>
  \<^verbatim>\<open>s.replace(pat, rep)\<close> with a string pattern: the first occurrence of \<open>pat\<close> is
  replaced, later ones are kept, and a string without an occurrence is returned as it is.
\<close>

fun replace :: "string \<Rightarrow> string \<Rightarrow> string \<Rightarrow> string" where
  "replace [] pat rep = (if pat = [] then rep else [])"
| "replace (c # cs) pat rep =
     (if startsWith (c # cs) pat then rep @ drop (length pat) (c # cs)
      else c # replace cs pat rep)"

text \<open>\<^verbatim>\<open>s.split('\n')\<close>: the pieces between line feeds; the empty string gives one empty piece.\<close>

fun split_lines :: "string \<Rightarrow> string list" where
  "split_lines [] = [[]]"
| "split_lines (c # cs) =
     (if c = CHR 0x0A then [] # split_lines cs
      else (case split_lines cs of
              [] \<Rightarrow> [[c]]
            | l # ls \<Rightarrow> (c # l) # ls))"

text \<open>
  \<^verbatim>\<open>s.trim()\<close> removes white space and line terminators at both ends. Among the 8-bit
  code units these are tab, line feed, vertical tab, form feed, carriage return, space and
  the no-break space.
\<close>

definition isWhiteSpace :: "char \<Rightarrow> bool" where
  "isWhiteSpace c =
     (c = CHR 0x09 \<or> c = CHR 0x0A \<or> c = CHR 0x0B \<or> c = CHR 0x0C \<or> c = CHR 0x0D
      \<or> c = CHR 0x20 \<or> c = CHR 0xA0)"

definition trim :: "string \<Rightarrow> string" where
  "trim s = rev (dropWhile isWhiteSpace (rev (dropWhile isWhiteSpace s)))"

text \<open>A string is truthy when it is not empty; \<^verbatim>\<open>undefined\<close> and \<^verbatim>\<open>null\<close> are \<open>None\<close>.\<close>

definition truthy :: "string option \<Rightarrow> bool" where
  "truthy v = (case v of None \<Rightarrow> False | Some s \<Rightarrow> s \<noteq> [])"

text \<open>\<^verbatim>\<open>a || d\<close> where \<open>d\<close> is a string: \<open>a\<close> when it is truthy, otherwise \<open>d\<close>.\<close>

definition or_else :: "string option \<Rightarrow> string \<Rightarrow> string" where
  "or_else a d = (case a of None \<Rightarrow> d | Some s \<Rightarrow> if s \<noteq> [] then s else d)"

text \<open>
  An exception is the message of the thrown \<^verbatim>\<open>Error\<close>, on the left of a sum. Every
  object the program throws or catches is an \<^verbatim>\<open>Error\<close> whose name is \<^verbatim>\<open>Error\<close>;
  \<^verbatim>\<open>`${error}`\<close> and \<^verbatim>\<open>error.toString()\<close> print it as follows.
\<close>

definition error_toString :: "string \<Rightarrow> string" where
  "error_toString msg = (if msg = [] then ''Error'' else ''Error: '' @ msg)"

section \<open>The repository name of a clone URL (cli.ts, wizard.ts)\<close>

text \<open>
  \<^verbatim>\<open>url.match(/\/([^\/]+?)(\.git)?$/)\<close>. The matcher tries the start positions from left
  to right. At a position it needs a slash, then the lazy group: one character that is
  not a slash, extended one character at a time until what is left is the end of the
  input or \<^verbatim>\<open>.git\<close> followed by the end of the input. \<open>lazy_group acc rest\<close> is
  that extension, with \<open>acc\<close> the characters taken so far.
\<close>

fun lazy_group :: "string \<Rightarrow> string \<Rightarrow> string option" where
  "lazy_group acc [] = Some acc"
| "lazy_group acc (c # cs) =
     (if c # cs = ''.git'' then Some acc
      else if c \<noteq> CHR ''/'' then lazy_group (acc @ [c]) cs
      else None)"

fun match_at :: "string \<Rightarrow> string option" where
  "match_at (s # c # cs) =
     (if s = CHR ''/'' \<and> c \<noteq> CHR ''/'' then lazy_group [c] cs else None)"
| "match_at _ = None"

fun match_repo :: "string \<Rightarrow> string option" where
  "match_repo [] = None"
| "match_repo (c # cs) =
     (case match_at (c # cs) of
        Some name \<Rightarrow> Some name
      | None \<Rightarrow> match_repo cs)"

text \<open>\<open>parseRepoUrl\<close> is the same function in cli.ts and in wizard.ts.\<close>

definition parseRepoUrl :: "string \<Rightarrow> string + string" where
  "parseRepoUrl url =
     (case match_repo url of
        None \<Rightarrow> Inl ''Invalid repository URL''
      | Some name \<Rightarrow> Inr name)"

text \<open>What the claim calls the final path segment with an optional \<^verbatim>\<open>.git\<close> stripped.\<close>

definition strip_git :: "string \<Rightarrow> string" where
  "strip_git seg =
     (if 4 < length seg \<and> drop (length seg - 4) seg = ''.git''
      then take (length seg - 4) seg else seg)"

section \<open>The file system, the external tool and the world\<close>

text \<open>
  The program reads and writes the file system through Node's \<^verbatim>\<open>fs\<close> module and runs
  \<^verbatim>\<open>git\<close> through \<^verbatim>\<open>child_process.exec\<close>. The file system is a map from paths to
  nodes. The one file the program reads is its JSON configuration, so a file holds either
  a JSON object with string-valued properties, kept in parsed form (\<^verbatim>\<open>JSON.parse\<close> gives
  back the object that \<^verbatim>\<open>JSON.stringify\<close> wrote), or text that does not parse.
\<close>

type_synonym json_object = "string \<rightharpoonup> string"

datatype filedata = Json json_object | Text string

datatype node = Dir | File filedata

type_synonym fs = "string \<rightharpoonup> node"

text \<open>
  The world is the file system together with the list of the shell commands run so far,
  oldest first. Output on the console is not modelled.
\<close>

record world =
  files :: fs
  trace :: "string list"

text \<open>
  What the program takes from its platform is a parameter of the model: \<^verbatim>\<open>path.join\<close>,
  the parent directory of a path, the chain of directories above a path (those that
  \<^verbatim>\<open>mkdir\<close> creates when asked to be recursive), and the external tool. The tool sees the
  command line and the whole world, and answers with a rejection (the message of the
  \<^verbatim>\<open>Error\<close> that \<^verbatim>\<open>exec\<close> rejects with) or with its standard output, and with the
  file system it leaves behind.
\<close>

record env =
  path_join :: "string \<Rightarrow> string \<Rightarrow> string"
  dirname :: "string \<Rightarrow> string"
  ancestors :: "string \<Rightarrow> string list"
  tool :: "string \<Rightarrow> world \<Rightarrow> (string + string) \<times> fs"

definition existsSync :: "world \<Rightarrow> string \<Rightarrow> bool" where
  "existsSync w p = (files w p \<noteq> None)"

definition isFile :: "world \<Rightarrow> string \<Rightarrow> bool" where
  "isFile w p = (case files w p of Some (File d) \<Rightarrow> True | _ \<Rightarrow> False)"

text \<open>
  \<^verbatim>\<open>mkdirSync(p, { recursive: true })\<close> creates \<open>p\<close> and the directories above it that
  are missing, and leaves what exists alone. It throws when \<open>p\<close> or a directory above
  it is a file.
\<close>

definition mkdirSync :: "env \<Rightarrow> string \<Rightarrow> world \<Rightarrow> string + world" where
  "mkdirSync env p w =
     (if isFile w p then Inl (''EEXIST: file already exists, mkdir '' @ p)
      else if list_ex (isFile w) (ancestors env p) then Inl (''ENOTDIR: not a directory, mkdir '' @ p)
      else Inr (w\<lparr>files := (\<lambda>q. if (q = p \<or> q \<in> set (ancestors env p)) \<and> files w q = None
                                   then Some Dir else files w q)\<rparr>))"

text \<open>\<^verbatim>\<open>writeFileSync(p, data)\<close> needs the directory of \<open>p\<close> and replaces a file that is there.\<close>

definition writeFileSync :: "env \<Rightarrow> string \<Rightarrow> filedata \<Rightarrow> world \<Rightarrow> string + world" where
  "writeFileSync env p data w =
     (if files w p = Some Dir then Inl (''EISDIR: illegal operation on a directory, open '' @ p)
      else if files w (dirname env p) \<noteq> Some Dir then Inl (''ENOENT: no such file or directory, open '' @ p)
      else Inr (w\<lparr>files := (files w)(p \<mapsto> File data)\<rparr>))"

definition readFileSync :: "string \<Rightarrow> world \<Rightarrow> string + filedata" where
  "readFileSync p w =
     (case files w p of
        None \<Rightarrow> Inl (''ENOENT: no such file or directory, open '' @ p)
      | Some Dir \<Rightarrow> Inl ''EISDIR: illegal operation on a directory, read''
      | Some (File data) \<Rightarrow> Inr data)"

text \<open>\<^verbatim>\<open>await execAsync(command)\<close>: the tool runs, and the command is on the trace.\<close>

definition execAsync :: "env \<Rightarrow> string \<Rightarrow> world \<Rightarrow> (string + string) \<times> world" where
  "execAsync env command w =
     (case tool env command w of
        (r, fs') \<Rightarrow> (r, \<lparr>files = fs', trace = trace w @ [command]\<rparr>))"

text \<open>
  The outer \<^verbatim>\<open>catch\<close> of every operation: \<^verbatim>\<open>throw new Error(`<prefix>${error}`)\<close>.
\<close>

definition rethrow :: "string \<Rightarrow> string + 'a \<Rightarrow> string + 'a" where
  "rethrow prefix r = (case r of Inl e \<Rightarrow> Inl (prefix @ error_toString e) | Inr v \<Rightarrow> Inr v)"

section \<open>RepositoryConfig.ts\<close>

record RepositoryConfig =
  defaultBranch :: string
  repositoryUrl :: string

record RepositoryConfigManager =
  configPath :: string

definition new_RepositoryConfigManager :: "env \<Rightarrow> string \<Rightarrow> RepositoryConfigManager" where
  "new_RepositoryConfigManager env repoPath = \<lparr>configPath = path_join env repoPath ''.worktree.json''\<rparr>"

definition JSON_stringify :: "RepositoryConfig \<Rightarrow> filedata" where
  "JSON_stringify config =
     Json [''defaultBranch'' \<mapsto> defaultBranch config, ''repositoryUrl'' \<mapsto> repositoryUrl config]"

definition JSON_parse :: "filedata \<Rightarrow> json_object option" where
  "JSON_parse data = (case data of Json obj \<Rightarrow> Some obj | Text t \<Rightarrow> None)"

definition save :: "env \<Rightarrow> RepositoryConfigManager \<Rightarrow> RepositoryConfig \<Rightarrow> world \<Rightarrow> string + world" where
  "save env cm config w = writeFileSync env (configPath cm) (JSON_stringify config) w"

text \<open>\<open>load\<close> gives \<^verbatim>\<open>null\<close> when the file is missing, cannot be read or does not parse.\<close>

definition load :: "RepositoryConfigManager \<Rightarrow> world \<Rightarrow> json_object option" where
  "load cm w =
     (if \<not> existsSync w (configPath cm) then None
      else (case readFileSync (configPath cm) w of
              Inl e \<Rightarrow> None
            | Inr data \<Rightarrow> JSON_parse data))"

text \<open>\<^verbatim>\<open>config?.defaultBranch || null\<close>\<close>

definition getDefaultBranch :: "RepositoryConfigManager \<Rightarrow> world \<Rightarrow> string option" where
  "getDefaultBranch cm w =
     (case load cm w of
        None \<Rightarrow> None
      | Some config \<Rightarrow> if truthy (config ''defaultBranch'') then config ''defaultBranch'' else None)"

section \<open>WorktreeManager.ts\<close>

text \<open>
  The manager is modelled from the longer of the two copies of the class (the one with
  \<open>listRemoteBranches\<close> and \<open>openRemoteBranch\<close>). The copies agree on every other
  method but for one line of \<open>removeWorktree\<close>, which is modelled in both forms.
\<close>

record WorktreeConfig =
  config_baseDir :: string
  config_repositoryName :: string
  config_defaultBranch :: "string option"

record WorktreeManager =
  baseDir :: string
  repositoryName :: string
  repositoryPath :: string
  barePath :: string
  this_defaultBranch :: string
  configManager :: RepositoryConfigManager

definition new_WorktreeManager :: "env \<Rightarrow> WorktreeConfig \<Rightarrow> WorktreeManager" where
  "new_WorktreeManager env config =
     (let repoPath = path_join env (config_baseDir config) (config_repositoryName config)
      in \<lparr>baseDir = config_baseDir config,
          repositoryName = config_repositoryName config,
          repositoryPath = repoPath,
          barePath = path_join env repoPath ''.bare'',
          this_defaultBranch = or_else (config_defaultBranch config) ''main'',
          configManager = new_RepositoryConfigManager env repoPath\<rparr>)"

text \<open>The prefix \<^verbatim>\<open>cd "${this.barePath}" && \<close> of the commands run inside the bare repository.\<close>

definition in_bare :: "WorktreeManager \<Rightarrow> string \<Rightarrow> string" where
  \<open>in_bare m command = ''cd "'' @ barePath m @ ''" && '' @ command\<close>

subsection \<open>clone\<close>

text \<open>
  The inner \<^verbatim>\<open>try\<close> of \<open>clone\<close> that finds the default branch. The remote's symbolic
  HEAD is asked first (two commands); when either fails, the list of remote branches is
  searched for \<^verbatim>\<open>origin/main\<close>, then \<^verbatim>\<open>origin/master\<close>; when that command fails or
  finds neither, the manager's own default is taken.
\<close>

definition cmd_set_head :: "WorktreeManager \<Rightarrow> string" where
  "cmd_set_head m = in_bare m ''git remote set-head origin -a''"

definition cmd_symbolic_ref :: "WorktreeManager \<Rightarrow> string" where
  "cmd_symbolic_ref m =
     in_bare m (''git symbolic-ref refs/remotes/origin/HEAD | sed 's@^refs/remotes/origin/@@'' @ [CHR 0x27])"

definition cmd_branch_r :: "WorktreeManager \<Rightarrow> string" where
  "cmd_branch_r m = in_bare m ''git branch -r''"

definition detect_fallback :: "env \<Rightarrow> WorktreeManager \<Rightarrow> world \<Rightarrow> string \<times> world" where
  "detect_fallback env m w =
     (case execAsync env (cmd_branch_r m) w of
        (Inr branches, w1) \<Rightarrow>
          (if js_includes branches ''origin/main'' then ''main''
           else if js_includes branches ''origin/master'' then ''master''
           else this_defaultBranch m, w1)
      | (Inl fallbackError, w1) \<Rightarrow> (this_defaultBranch m, w1))"

definition detect_default_branch :: "env \<Rightarrow> WorktreeManager \<Rightarrow> world \<Rightarrow> string \<times> world" where
  "detect_default_branch env m w =
     (case execAsync env (cmd_set_head m) w of
        (Inl error, w1) \<Rightarrow> detect_fallback env m w1
      | (Inr out0, w1) \<Rightarrow>
          (case execAsync env (cmd_symbolic_ref m) w1 of
             (Inl error, w2) \<Rightarrow> detect_fallback env m w2
           | (Inr stdout, w2) \<Rightarrow> (trim stdout, w2)))"

definition cmd_clone_bare :: "WorktreeManager \<Rightarrow> string \<Rightarrow> string" where
  "cmd_clone_bare m url = ''git clone --bare '' @ url @ '' '' @ barePath m"

definition cmd_worktree_add :: "WorktreeManager \<Rightarrow> string \<Rightarrow> string \<Rightarrow> string" where
  \<open>cmd_worktree_add m worktreePath branch =
     in_bare m (''git worktree add "'' @ worktreePath @ ''" '' @ branch)\<close>

text \<open>
  The body of the outer \<^verbatim>\<open>try\<close> of \<open>clone\<close>. The manager is part of the result,
  since \<open>clone\<close> assigns its \<open>defaultBranch\<close> field.
\<close>

definition clone_try ::
  "env \<Rightarrow> WorktreeManager \<Rightarrow> string \<Rightarrow> world \<Rightarrow> (string + unit) \<times> WorktreeManager \<times> world" where
  "clone_try env m url w =
     (case (if \<not> existsSync w (baseDir m) then mkdirSync env (baseDir m) w else Inr w) of
        Inl e \<Rightarrow> (Inl e, m, w)
      | Inr w1 \<Rightarrow>
          if existsSync w1 (repositoryPath m)
          then (Inl (''Repository directory already exists: '' @ repositoryPath m), m, w1)
          else
            (case mkdirSync env (repositoryPath m) w1 of
               Inl e \<Rightarrow> (Inl e, m, w1)
             | Inr w2 \<Rightarrow>
                 (case execAsync env (cmd_clone_bare m url) w2 of
                    (Inl e, w3) \<Rightarrow> (Inl e, m, w3)
                  | (Inr out0, w3) \<Rightarrow>
                      (case detect_default_branch env m w3 of
                         (actualDefaultBranch, w4) \<Rightarrow>
                           (let m' = m\<lparr>this_defaultBranch := actualDefaultBranch\<rparr>;
                                repoConfig = \<lparr>defaultBranch = actualDefaultBranch, repositoryUrl = url\<rparr>
                            in case save env (configManager m') repoConfig w4 of
                                 Inl e \<Rightarrow> (Inl e, m', w4)
                               | Inr w5 \<Rightarrow>
                                   (let worktreePath = path_join env (repositoryPath m') actualDefaultBranch
                                    in case execAsync env (cmd_worktree_add m' worktreePath actualDefaultBranch) w5 of
                                         (Inl e, w6) \<Rightarrow> (Inl e, m', w6)
                                       | (Inr out1, w6) \<Rightarrow> (Inr (), m', w6)))))))"

definition clone ::
  "env \<Rightarrow> WorktreeManager \<Rightarrow> string \<Rightarrow> world \<Rightarrow> (string + unit) \<times> WorktreeManager \<times> world" where
  "clone env m url w =
     (case clone_try env m url w of
        (r, m', w') \<Rightarrow> (rethrow ''Failed to clone repository: '' r, m', w'))"

subsection \<open>createBranch\<close>

definition cmd_fetch_origin :: "WorktreeManager \<Rightarrow> string" where
  "cmd_fetch_origin m = in_bare m ''git fetch origin''"

definition cmd_fetch_base :: "WorktreeManager \<Rightarrow> string \<Rightarrow> string" where
  "cmd_fetch_base m base = in_bare m (''git fetch origin '' @ base @ '':refs/remotes/origin/'' @ base)"

definition cmd_worktree_add_b :: "WorktreeManager \<Rightarrow> string \<Rightarrow> string \<Rightarrow> string \<Rightarrow> string" where
  \<open>cmd_worktree_add_b m branchName worktreePath base =
     in_bare m (''git worktree add -b '' @ branchName @ '' "'' @ worktreePath @ ''" origin/'' @ base)\<close>

text \<open>\<^verbatim>\<open>baseBranch || savedDefaultBranch || this.defaultBranch\<close>\<close>

definition resolve_base :: "WorktreeManager \<Rightarrow> string option \<Rightarrow> world \<Rightarrow> string" where
  "resolve_base m baseBranch w =
     (let savedDefaultBranch = getDefaultBranch (configManager m) w
      in or_else baseBranch (or_else savedDefaultBranch (this_defaultBranch m)))"

definition createBranch_try ::
  "env \<Rightarrow> WorktreeManager \<Rightarrow> string \<Rightarrow> string option \<Rightarrow> bool \<Rightarrow> world \<Rightarrow> (string + unit) \<times> world" where
  "createBranch_try env m branchName baseBranch pullLatest w =
     (if \<not> existsSync w (barePath m) then (Inl ''Repository not found. Please clone first.'', w)
      else
        (let worktreePath = path_join env (repositoryPath m) branchName
         in if existsSync w worktreePath
            then (Inl (''Worktree for branch '' @ branchName @ '' already exists''), w)
            else
              (let base = resolve_base m baseBranch w;
                   w1 = (if pullLatest then snd (execAsync env (cmd_fetch_origin m) w) else w)
               in case execAsync env (cmd_fetch_base m base) w1 of
                    (Inl e, w2) \<Rightarrow> (Inl e, w2)
                  | (Inr out0, w2) \<Rightarrow>
                      (case execAsync env (cmd_worktree_add_b m branchName worktreePath base) w2 of
                         (Inl e, w3) \<Rightarrow> (Inl e, w3)
                       | (Inr out1, w3) \<Rightarrow> (Inr (), w3)))))"

definition createBranch ::
  "env \<Rightarrow> WorktreeManager \<Rightarrow> string \<Rightarrow> string option \<Rightarrow> bool \<Rightarrow> world \<Rightarrow> (string + unit) \<times> world" where
  "createBranch env m branchName baseBranch pullLatest w =
     (case createBranch_try env m branchName baseBranch pullLatest w of
        (r, w') \<Rightarrow> (rethrow ''Failed to create branch: '' r, w'))"

subsection \<open>listWorktrees\<close>

text \<open>\<^verbatim>\<open>lines[i]\<close>, which is \<^verbatim>\<open>undefined\<close> beyond the end of the array.\<close>

definition line_at :: "string list \<Rightarrow> nat \<Rightarrow> string option" where
  "line_at lines i = (if i < length lines then Some (lines ! i) else None)"

text \<open>\<^verbatim>\<open>branchLine ? branchLine.replace('branch refs/heads/', '') : 'detached'\<close>\<close>

definition branch_label :: "string option \<Rightarrow> string" where
  "branch_label branchLine =
     (case branchLine of
        None \<Rightarrow> ''detached''
      | Some l \<Rightarrow> if l \<noteq> [] then replace l ''branch refs/heads/'' [] else ''detached'')"

definition worktree_entry :: "string list \<Rightarrow> nat \<Rightarrow> string" where
  "worktree_entry lines i =
     (let path = substring (lines ! i) 9;
          branch = branch_label (line_at lines (i + 2))
      in path @ '' ('' @ branch @ '')'')"

text \<open>The \<^verbatim>\<open>for\<close> loop over the lines, from index \<open>i\<close>, with the entries pushed so far.\<close>

function worktrees_loop :: "string list \<Rightarrow> nat \<Rightarrow> string list \<Rightarrow> string list" where
  "worktrees_loop lines i worktrees =
     (if i < length lines
      then (if startsWith (lines ! i) ''worktree ''
            then worktrees_loop lines (i + 1) (worktrees @ [worktree_entry lines i])
            else worktrees_loop lines (i + 1) worktrees)
      else worktrees)"
  by pat_completeness auto
termination
  by (relation "measure (\<lambda>(lines, i, worktrees). length lines - i)") auto

declare worktrees_loop.simps [simp del]

definition parse_worktrees :: "string \<Rightarrow> string list" where
  "parse_worktrees stdout = worktrees_loop (split_lines stdout) 0 []"

definition cmd_worktree_list :: "WorktreeManager \<Rightarrow> string" where
  "cmd_worktree_list m = in_bare m ''git worktree list --porcelain''"

definition listWorktrees_try :: "env \<Rightarrow> WorktreeManager \<Rightarrow> world \<Rightarrow> (string + string list) \<times> world" where
  "listWorktrees_try env m w =
     (if \<not> existsSync w (barePath m) then (Inl ''Repository not found. Please clone first.'', w)
      else
        (case execAsync env (cmd_worktree_list m) w of
           (Inl e, w1) \<Rightarrow> (Inl e, w1)
         | (Inr stdout, w1) \<Rightarrow> (Inr (parse_worktrees stdout), w1)))"

definition listWorktrees :: "env \<Rightarrow> WorktreeManager \<Rightarrow> world \<Rightarrow> (string + string list) \<times> world" where
  "listWorktrees env m w =
     (case listWorktrees_try env m w of
        (r, w') \<Rightarrow> (rethrow ''Failed to list worktrees: '' r, w'))"

subsection \<open>removeWorktree\<close>

definition cmd_worktree_remove :: "WorktreeManager \<Rightarrow> bool \<Rightarrow> string \<Rightarrow> string" where
  \<open>cmd_worktree_remove m force worktreePath =
     (let forceFlag = (if force then ''--force'' else '''')
      in in_bare m (''git worktree remove '' @ forceFlag @ '' "'' @ worktreePath @ ''"''))\<close>

definition removeWorktree_try :: "env \<Rightarrow> WorktreeManager \<Rightarrow> string \<Rightarrow> bool \<Rightarrow> world \<Rightarrow> (string + unit) \<times> world" where
  "removeWorktree_try env m branchName force w =
     (if \<not> existsSync w (barePath m) then (Inl ''Repository not found.'', w)
      else
        (let worktreePath = path_join env (repositoryPath m) branchName
         in case execAsync env (cmd_worktree_remove m force worktreePath) w of
              (Inl e, w1) \<Rightarrow> (Inl e, w1)
            | (Inr out0, w1) \<Rightarrow> (Inr (), w1)))"

definition dirty_message :: "WorktreeManager \<Rightarrow> string \<Rightarrow> string" where
  "dirty_message m branchName =
     ''Worktree contains modified or untracked files. Use 'npm run remove:force '' @ repositoryName m
       @ '' '' @ branchName @ [CHR 0x27] @ '' to force removal.''"

text \<open>
  The \<^verbatim>\<open>catch\<close> of \<open>removeWorktree\<close>. The longer copy of the class tests
  \<^verbatim>\<open>error.message\<close>, the shorter one \<^verbatim>\<open>error.toString()\<close>.
\<close>

definition removeWorktree_catch :: "WorktreeManager \<Rightarrow> string \<Rightarrow> bool \<Rightarrow> string \<Rightarrow> string" where
  "removeWorktree_catch m branchName force error =
     (let errorMessage = error
      in if \<not> force \<and> js_includes errorMessage ''contains modified or untracked files''
         then dirty_message m branchName
         else ''Failed to remove worktree: '' @ error_toString error)"

definition removeWorktree_catch_short :: "WorktreeManager \<Rightarrow> string \<Rightarrow> bool \<Rightarrow> string \<Rightarrow> string" where
  "removeWorktree_catch_short m branchName force error =
     (if \<not> force \<and> js_includes (error_toString error) ''contains modified or untracked files''
      then dirty_message m branchName
      else ''Failed to remove worktree: '' @ error_toString error)"

definition removeWorktree :: "env \<Rightarrow> WorktreeManager \<Rightarrow> string \<Rightarrow> bool \<Rightarrow> world \<Rightarrow> (string + unit) \<times> world" where
  "removeWorktree env m branchName force w =
     (case removeWorktree_try env m branchName force w of
        (Inl error, w') \<Rightarrow> (Inl (removeWorktree_catch m branchName force error), w')
      | (Inr v, w') \<Rightarrow> (Inr v, w'))"

definition removeWorktree_short :: "env \<Rightarrow> WorktreeManager \<Rightarrow> string \<Rightarrow> bool \<Rightarrow> world \<Rightarrow> (string + unit) \<times> world" where
  "removeWorktree_short env m branchName force w =
     (case removeWorktree_try env m branchName force w of
        (Inl error, w') \<Rightarrow> (Inl (removeWorktree_catch_short m branchName force error), w')
      | (Inr v, w') \<Rightarrow> (Inr v, w'))"

subsection \<open>listRemoteBranches\<close>

text \<open>
  \<^verbatim>\<open>line.match(/refs\/heads\/(.+)$/)\<close>: the leftmost position where \<^verbatim>\<open>refs/heads/\<close>
  stands and is followed, up to the end of the input, by at least one character and no
  line terminator (the dot matches none). The result is the group, \<open>None\<close> for no match.
\<close>

definition isLineTerminator :: "char \<Rightarrow> bool" where
  "isLineTerminator c = (c = CHR 0x0A \<or> c = CHR 0x0D)"

definition dots_to_end :: "string \<Rightarrow> bool" where
  "dots_to_end r = (r \<noteq> [] \<and> \<not> list_ex isLineTerminator r)"

fun match_head :: "string \<Rightarrow> string option" where
  "match_head [] = None"
| "match_head (c # cs) =
     (if startsWith (c # cs) ''refs/heads/'' \<and> dots_to_end (drop (length ''refs/heads/'') (c # cs))
      then Some (drop (length ''refs/heads/'') (c # cs))
      else match_head cs)"

text \<open>\<^verbatim>\<open>[...new Set(branches)]\<close>: the values in the order of their first occurrence.\<close>

definition set_values :: "string list \<Rightarrow> string list" where
  "set_values xs = fold (\<lambda>x acc. if x \<in> set acc then acc else acc @ [x]) xs []"

text \<open>The chain from the standard output of \<^verbatim>\<open>git ls-remote\<close> to the returned list.\<close>

definition remote_branches :: "string \<Rightarrow> string list" where
  "remote_branches stdout =
     (let branches =
            map the (filter (\<lambda>branch. branch \<noteq> None)
              (map match_head (filter (\<lambda>line. trim line \<noteq> []) (split_lines stdout))))
      in sort (set_values branches))"

definition cmd_fetch_prune :: "WorktreeManager \<Rightarrow> string" where
  \<open>cmd_fetch_prune m = in_bare m ''git fetch --prune origin "+refs/heads/*:refs/remotes/origin/*"''\<close>

definition cmd_ls_remote :: "WorktreeManager \<Rightarrow> string" where
  "cmd_ls_remote m = in_bare m ''git ls-remote --heads origin''"

definition listRemoteBranches_try :: "env \<Rightarrow> WorktreeManager \<Rightarrow> world \<Rightarrow> (string + string list) \<times> world" where
  "listRemoteBranches_try env m w =
     (if \<not> existsSync w (barePath m) then (Inl ''Repository not found. Please clone first.'', w)
      else
        (case execAsync env (cmd_fetch_prune m) w of
           (Inl e, w1) \<Rightarrow> (Inl e, w1)
         | (Inr out0, w1) \<Rightarrow>
             (case execAsync env (cmd_ls_remote m) w1 of
                (Inl e, w2) \<Rightarrow> (Inl e, w2)
              | (Inr stdout, w2) \<Rightarrow> (Inr (remote_branches stdout), w2))))"

definition listRemoteBranches :: "env \<Rightarrow> WorktreeManager \<Rightarrow> world \<Rightarrow> (string + string list) \<times> world" where
  "listRemoteBranches env m w =
     (case listRemoteBranches_try env m w of
        (r, w') \<Rightarrow> (rethrow ''Failed to list remote branches: '' r, w'))"

subsection \<open>openRemoteBranch\<close>

definition cmd_fetch_all :: "WorktreeManager \<Rightarrow> string" where
  \<open>cmd_fetch_all m = in_bare m ''git fetch origin "+refs/heads/*:refs/remotes/origin/*"''\<close>

text \<open>The first attempt creates a local branch of the same name from the remote one.\<close>

definition cmd_worktree_add_tracking :: "WorktreeManager \<Rightarrow> string \<Rightarrow> string \<Rightarrow> string" where
  \<open>cmd_worktree_add_tracking m worktreePath branchName =
     in_bare m (''git worktree add "'' @ worktreePath @ ''" -b '' @ branchName @ '' origin/'' @ branchName)\<close>

text \<open>
  The inner \<^verbatim>\<open>try\<close> of \<open>openRemoteBranch\<close>: the first attempt, and in its
  \<^verbatim>\<open>catch\<close> the attempt that checks out the local branch that is there.
\<close>

definition add_remote_worktree :: "env \<Rightarrow> WorktreeManager \<Rightarrow> string \<Rightarrow> string \<Rightarrow> world \<Rightarrow> (string + unit) \<times> world" where
  "add_remote_worktree env m worktreePath branchName w =
     (case execAsync env (cmd_worktree_add_tracking m worktreePath branchName) w of
        (Inr out0, w1) \<Rightarrow> (Inr (), w1)
      | (Inl error, w1) \<Rightarrow>
          (case execAsync env (cmd_worktree_add m worktreePath branchName) w1 of
             (Inl e, w2) \<Rightarrow> (Inl e, w2)
           | (Inr out1, w2) \<Rightarrow> (Inr (), w2)))"

definition openRemoteBranch_try :: "env \<Rightarrow> WorktreeManager \<Rightarrow> string \<Rightarrow> world \<Rightarrow> (string + unit) \<times> world" where
  "openRemoteBranch_try env m branchName w =
     (if \<not> existsSync w (barePath m) then (Inl ''Repository not found. Please clone first.'', w)
      else
        (let worktreePath = path_join env (repositoryPath m) branchName
         in if existsSync w worktreePath then (Inr (), w)
            else
              (case execAsync env (cmd_fetch_all m) w of
                 (Inl e, w1) \<Rightarrow> (Inl e, w1)
               | (Inr out0, w1) \<Rightarrow>
                   (case listRemoteBranches env m w1 of
                      (Inl e, w2) \<Rightarrow> (Inl e, w2)
                    | (Inr remoteBranches, w2) \<Rightarrow>
                        if branchName \<notin> set remoteBranches
                        then (Inl (''Remote branch '' @ [CHR 0x27] @ branchName @ [CHR 0x27]
                                    @ '' not found. Please check the branch name.''), w2)
                        else add_remote_worktree env m worktreePath branchName w2))))"

definition openRemoteBranch :: "env \<Rightarrow> WorktreeManager \<Rightarrow> string \<Rightarrow> world \<Rightarrow> (string + unit) \<times> world" where
  "openRemoteBranch env m branchName w =
     (case openRemoteBranch_try env m branchName w of
        (r, w') \<Rightarrow> (rethrow ''Failed to open remote branch: '' r, w'))"

section \<open>An example platform\<close>

text \<open>
  A platform on which the theorems are run: paths are joined with a slash, the parent
  of a path is what stands before its last slash, and the directories above a path are
  its parent, the parent's parent and so on. The tool is given by a table from command
  lines to answers, leaves the file system alone, and rejects a command that is not in
  the table.
\<close>

definition posix_join :: "string \<Rightarrow> string \<Rightarrow> string" where
  "posix_join a b = a @ ''/'' @ b"

definition posix_dirname :: "string \<Rightarrow> string" where
  "posix_dirname p = rev (drop 1 (dropWhile (\<lambda>c. c \<noteq> CHR ''/'') (rev p)))"

fun posix_ancestors_upto :: "nat \<Rightarrow> string \<Rightarrow> string list" where
  "posix_ancestors_upto 0 p = []"
| "posix_ancestors_upto (Suc n) p =
     (if posix_dirname p = [] then []
      else posix_dirname p # posix_ancestors_upto n (posix_dirname p))"

definition posix_ancestors :: "string \<Rightarrow> string list" where
  "posix_ancestors p = posix_ancestors_upto (length p) p"

definition table_tool :: "(string \<times> (string + string)) list \<Rightarrow> string \<Rightarrow> world \<Rightarrow> (string + string) \<times> fs" where
  "table_tool table command w =
     (case map_of table command of
        None \<Rightarrow> (Inl (''Command failed: '' @ command), files w)
      | Some r \<Rightarrow> (r, files w))"

definition posix_env :: "(string \<times> (string + string)) list \<Rightarrow> env" where
  "posix_env table =
     \<lparr>path_join = posix_join, dirname = posix_dirname, ancestors = posix_ancestors,
      tool = table_tool table\<rparr>"

text \<open>
  The manager of the workspace \<^verbatim>\<open>/work/repositories/project\<close>, built as the entry
  points build it (no default branch given), and a world in which that workspace has
  been cloned: the bare storage and the worktree \<^verbatim>\<open>main\<close> are there, and the stored
  default branch is \<^verbatim>\<open>develop\<close>.
\<close>

definition project_manager :: WorktreeManager where
  "project_manager =
     new_WorktreeManager (posix_env [])
       \<lparr>config_baseDir = ''/work/repositories'', config_repositoryName = ''project'',
        config_defaultBranch = None\<rparr>"

definition cloned_world :: world where
  "cloned_world =
     \<lparr>files = [''/work'' \<mapsto> Dir,
               ''/work/repositories'' \<mapsto> Dir,
               ''/work/repositories/project'' \<mapsto> Dir,
               ''/work/repositories/project/.bare'' \<mapsto> Dir,
               ''/work/repositories/project/main'' \<mapsto> Dir,
               ''/work/repositories/project/.worktree.json'' \<mapsto>
                 File (Json [''defaultBranch'' \<mapsto> ''develop'',
                             ''repositoryUrl'' \<mapsto> ''https://example.com/group/project.git''])],
      trace = []\<rparr>"

text \<open>
  Porcelain listings: three worktrees of which the last is detached, and the listing
  that starts with the record of the bare storage.
\<close>

definition three_worktrees :: string where
  "three_worktrees =
     ''worktree /repo/main\<newline>HEAD 1111\<newline>branch refs/heads/main\<newline>\<newline>''
     @ ''worktree /repo/feature\<newline>HEAD 2222\<newline>branch refs/heads/feature\<newline>\<newline>''
     @ ''worktree /repo/hotfix\<newline>HEAD 3333\<newline>detached\<newline>\<newline>''"


text \<open>
  Two answers of \<^verbatim>\<open>git ls-remote --heads origin\<close> with the same lines in different
  orders; \<^verbatim>\<open>main\<close> is listed twice.
\<close>

definition ref_line :: "string \<Rightarrow> string \<Rightarrow> string" where
  "ref_line sha name = sha @ [CHR 0x09] @ ''refs/heads/'' @ name @ [CHR 0x0A]"

definition ls_remote_one :: string where
  "ls_remote_one =
     ref_line ''1a2b'' ''main'' @ ref_line ''3c4d'' ''develop'' @ ref_line ''1a2b'' ''main''
     @ ref_line ''5e6f'' ''feature/x''"

definition ls_remote_two :: string where
  "ls_remote_two =
     ref_line ''5e6f'' ''feature/x'' @ ref_line ''1a2b'' ''main'' @ ref_line ''1a2b'' ''main''
     @ ref_line ''3c4d'' ''develop''"

text \<open>
  What \<^verbatim>\<open>git worktree remove\<close> says about a worktree with changes and about a path
  that is no worktree, and a tool that says the first for the worktree \<^verbatim>\<open>feature\<close>,
  with and without \<^verbatim>\<open>--force\<close>, and the second for \<^verbatim>\<open>gone\<close>.
\<close>

definition dirty_diagnostic :: string where
  "dirty_diagnostic =
     ''Command failed: git worktree remove\<newline>fatal: worktree contains modified or untracked files, use --force to delete it''"

definition missing_diagnostic :: string where
  "missing_diagnostic =
     ''Command failed: git worktree remove\<newline>fatal: path is not a working tree''"

definition refusing_env :: env where
  "refusing_env =
     posix_env
       [(cmd_worktree_remove project_manager False ''/work/repositories/project/feature'',
         Inl dirty_diagnostic),
        (cmd_worktree_remove project_manager True ''/work/repositories/project/feature'',
         Inl dirty_diagnostic),
        (cmd_worktree_remove project_manager False ''/work/repositories/project/gone'',
         Inl missing_diagnostic)]"

text \<open>
  A workspace directory without bare storage, as a failed clone leaves it, in which a
  directory \<^verbatim>\<open>feature\<close> has been made by hand.
\<close>

definition half_cloned_world :: world where
  "half_cloned_world =
     \<lparr>files = [''/work'' \<mapsto> Dir,
               ''/work/repositories'' \<mapsto> Dir,
               ''/work/repositories/project'' \<mapsto> Dir,
               ''/work/repositories/project/feature'' \<mapsto> Dir],
      trace = []\<rparr>"

text \<open>A tool that fetches \<^verbatim>\<open>develop\<close> and adds the worktree \<^verbatim>\<open>feature\<close> on top of it.\<close>

definition branching_env :: env where
  "branching_env =
     posix_env
       [(cmd_fetch_base project_manager ''develop'', Inr []),
        (cmd_worktree_add_b project_manager ''feature'' ''/work/repositories/project/feature''
           ''develop'', Inr ''Preparing worktree (new branch 'feature')'')]"

text \<open>
  A world in which nothing has been cloned yet, and a tool for which the clone works
  and the remote's symbolic HEAD is \<^verbatim>\<open>develop\<close>.
\<close>

definition fresh_world :: world where
  "fresh_world = \<lparr>files = [''/work'' \<mapsto> Dir], trace = []\<rparr>"

definition project_url :: string where
  "project_url = ''https://example.com/group/project.git''"

definition cloning_env :: env where
  "cloning_env =
     posix_env
       [(cmd_clone_bare project_manager project_url, Inr []),
        (cmd_set_head project_manager, Inr ''origin/HEAD set to develop\<newline>''),
        (cmd_symbolic_ref project_manager, Inr ''develop\<newline>''),
        (cmd_worktree_add project_manager ''/work/repositories/project/develop'' ''develop'',
         Inr ''Preparing worktree (checking out 'develop')'')]"

text \<open>
  A tool that cannot answer the question for the symbolic HEAD (the command is not in
  its table) and lists the remote branches \<^verbatim>\<open>master\<close> and \<^verbatim>\<open>feature\<close>.
\<close>

definition fallback_env :: env where
  "fallback_env =
     posix_env
       [(cmd_clone_bare project_manager project_url, Inr []),
        (cmd_branch_r project_manager, Inr ''  origin/feature\<newline>  origin/master\<newline>''),
        (cmd_worktree_add project_manager ''/work/repositories/project/master'' ''master'',
         Inr ''Preparing worktree (checking out 'master')'')]"

text \<open>
  A tool that cannot answer the question for the symbolic HEAD either, and whose remote
  has the branches \<^verbatim>\<open>maintenance\<close> and \<^verbatim>\<open>master\<close> and no branch \<^verbatim>\<open>main\<close>; it
  accepts a worktree for \<^verbatim>\<open>main\<close> all the same.
\<close>

definition maintenance_listing :: string where
  "maintenance_listing = ''  origin/maintenance\<newline>  origin/master\<newline>''"

definition maintenance_env :: env where
  "maintenance_env =
     posix_env
       [(cmd_clone_bare project_manager project_url, Inr []),
        (cmd_branch_r project_manager, Inr maintenance_listing),
        (cmd_worktree_add project_manager ''/work/repositories/project/main'' ''main'',
         Inr ''Preparing worktree (checking out 'main')'')]"

text \<open>
  A tool for adopting the remote branch \<^verbatim>\<open>develop\<close>: the fetches work, the remote lists
  the first listing above, and the two attempts to add the worktree are answered as given.
  Below are the two rejections used: the one git gives when the local branch exists, and
  one with another cause.
\<close>

definition adopting_env :: "(string + string) \<Rightarrow> (string + string) \<Rightarrow> env" where
  "adopting_env first second =
     posix_env
       [(cmd_fetch_all project_manager, Inr []),
        (cmd_fetch_prune project_manager, Inr []),
        (cmd_ls_remote project_manager, Inr ls_remote_one),
        (cmd_worktree_add_tracking project_manager ''/work/repositories/project/develop'' ''develop'',
         first),
        (cmd_worktree_add project_manager ''/work/repositories/project/develop'' ''develop'',
         second)]"

definition branch_exists_diagnostic :: string where
  "branch_exists_diagnostic =
     ''Command failed: git worktree add\<newline>fatal: a branch named 'develop' already exists''"

definition permission_diagnostic :: string where
  "permission_diagnostic =
     ''Command failed: git worktree add\<newline>fatal: could not create directory: Permission denied''"
section \<open>Theorems: the repository name of a clone URL\<close>

lemma lazy_group_slash: "CHR ''/'' \<in> set rest \<Longrightarrow> lazy_group acc rest = None"
  by (induction rest arbitrary: acc) auto

lemma lazy_group_git: "CHR ''/'' \<notin> set xs \<Longrightarrow> lazy_group acc (xs @ ''.git'') = Some (acc @ xs)"
  by (induction xs arbitrary: acc) auto

lemma lazy_group_plain:
  "CHR ''/'' \<notin> set rest \<Longrightarrow> \<forall>xs. rest \<noteq> xs @ ''.git'' \<Longrightarrow> lazy_group acc rest = Some (acc @ rest)"
proof (induction rest arbitrary: acc)
  case Nil
  then show ?case by simp
next
  case (Cons c cs)
  have "c # cs \<noteq> [] @ ''.git''" using Cons.prems(2) by blast
  then have ne: "c # cs \<noteq> ''.git''" by simp
  have "cs \<noteq> xs @ ''.git''" for xs
    using Cons.prems(2) [rule_format, of "c # xs"] by simp
  then have "lazy_group (acc @ [c]) cs = Some ((acc @ [c]) @ cs)"
    using Cons.IH [of "acc @ [c]"] Cons.prems(1) by simp
  then show ?case using ne Cons.prems(1) by auto
qed

lemma strip_git_suffix: "xs \<noteq> [] \<Longrightarrow> strip_git (xs @ ''.git'') = xs"
  by (simp add: strip_git_def)

lemma strip_git_plain:
  assumes "\<forall>xs. xs \<noteq> [] \<longrightarrow> seg \<noteq> xs @ ''.git''"
  shows "strip_git seg = seg"
proof (cases "4 < length seg \<and> drop (length seg - 4) seg = ''.git''")
  case True
  then have "seg = take (length seg - 4) seg @ ''.git''" and "take (length seg - 4) seg \<noteq> []"
    using append_take_drop_id [of "length seg - 4" seg] by auto
  then show ?thesis using assms by blast
next
  case False
  then show ?thesis unfolding strip_git_def by (simp only: if_False)
qed

lemma match_at_segment:
  assumes "seg \<noteq> []" "CHR ''/'' \<notin> set seg"
  shows "match_at (CHR ''/'' # seg) = Some (strip_git seg)"
proof -
  obtain c cs where seg: "seg = c # cs" using assms(1) by (cases seg) auto
  have c: "c \<noteq> CHR ''/''" and ns: "CHR ''/'' \<notin> set cs" using assms(2) seg by auto
  have m: "match_at (CHR ''/'' # seg) = lazy_group [c] cs" using seg c by simp
  show ?thesis
  proof (cases "\<exists>xs. cs = xs @ ''.git''")
    case True
    then obtain xs where xs: "cs = xs @ ''.git''" by blast
    have "lazy_group [c] cs = Some ([c] @ xs)"
      unfolding xs using ns xs by (intro lazy_group_git) simp
    moreover have "strip_git seg = [c] @ xs"
      using strip_git_suffix [of "c # xs"] seg xs by simp
    ultimately show ?thesis using m by simp
  next
    case False
    then have "lazy_group [c] cs = Some ([c] @ cs)"
      using ns by (intro lazy_group_plain) auto
    moreover have "strip_git seg = seg"
    proof (rule strip_git_plain, intro allI impI)
      fix ys :: string
      assume "ys \<noteq> []"
      then obtain y ys' where "ys = y # ys'" by (cases ys) auto
      then show "seg \<noteq> ys @ ''.git''" using False seg by auto
    qed
    ultimately show ?thesis using m seg by simp
  qed
qed

lemma match_at_inner_slash:
  "match_at (c # pre @ CHR ''/'' # rest) = None"
proof (cases pre)
  case Nil
  then show ?thesis by simp
next
  case (Cons p ps)
  then show ?thesis by (simp add: lazy_group_slash)
qed

lemma match_repo_last_slash:
  "match_repo (pre @ CHR ''/'' # rest) = match_repo (CHR ''/'' # rest)"
proof (induction pre)
  case Nil
  then show ?case by simp
next
  case (Cons p ps)
  have "match_at (p # ps @ CHR ''/'' # rest) = None" by (rule match_at_inner_slash)
  then show ?case using Cons.IH by simp
qed

lemma match_repo_no_slash: "CHR ''/'' \<notin> set s \<Longrightarrow> match_repo s = None"
proof (induction s)
  case Nil
  then show ?case by simp
next
  case (Cons c cs)
  then have "match_at (c # cs) = None" by (cases cs) auto
  then show ?case using Cons by simp
qed

lemma parseRepoUrl_segment:
  assumes "seg \<noteq> []" "CHR ''/'' \<notin> set seg"
  shows "parseRepoUrl (pre @ ''/'' @ seg) = Inr (strip_git seg)"
proof -
  have "match_repo (pre @ CHR ''/'' # seg) = match_repo (CHR ''/'' # seg)"
    by (rule match_repo_last_slash)
  also have "\<dots> = Some (strip_git seg)" using match_at_segment [OF assms] by simp
  finally show ?thesis by (simp add: parseRepoUrl_def)
qed

lemma parseRepoUrl_trailing_slash: "parseRepoUrl (pre @ ''/'') = Inl ''Invalid repository URL''"
proof -
  have "match_repo (pre @ CHR ''/'' # []) = match_repo (CHR ''/'' # [])"
    by (rule match_repo_last_slash)
  then show ?thesis by (simp add: parseRepoUrl_def)
qed

text \<open>
  Claim C9, as stated, at a URL that is a host and nothing else: it has no path segment,
  and \<open>parseRepoUrl\<close> does not fail on it but returns the host, which is what follows
  the last slash.
\<close>

theorem parseRepoUrl_host_only_counterexample:
  "parseRepoUrl ''https://example.com'' = Inr ''example.com''
   \<and> parseRepoUrl ''https://example.com'' \<noteq> Inl ''Invalid repository URL''"
  by (simp add: parseRepoUrl_def)

text \<open>
  Claim C9, amended. \<open>parseRepoUrl\<close> looks at what follows the last slash of the URL.
  When that is not empty, it is returned, without a final \<^verbatim>\<open>.git\<close> when something
  stands before it (a segment that is just \<^verbatim>\<open>.git\<close> is returned whole, since the lazy
  group takes at least one character). A URL that ends in a slash, or has none, fails
  with the invalid-URL error. Both spellings of the example URL give \<^verbatim>\<open>project\<close>,
  and \<^verbatim>\<open>https://example.com/\<close> fails.
\<close>

theorem parseRepoUrl_final_segment:
  "(seg \<noteq> [] \<and> CHR ''/'' \<notin> set seg \<longrightarrow> parseRepoUrl (pre @ ''/'' @ seg) = Inr (strip_git seg))
   \<and> parseRepoUrl (pre @ ''/'') = Inl ''Invalid repository URL''
   \<and> (CHR ''/'' \<notin> set url \<longrightarrow> parseRepoUrl url = Inl ''Invalid repository URL'')
   \<and> (name \<noteq> [] \<longrightarrow> strip_git (name @ ''.git'') = name)
   \<and> ((\<forall>xs. xs \<noteq> [] \<longrightarrow> name \<noteq> xs @ ''.git'') \<longrightarrow> strip_git name = name)
   \<and> parseRepoUrl ''https://example.com/group/project.git'' = Inr ''project''
   \<and> parseRepoUrl ''https://example.com/group/project'' = Inr ''project''
   \<and> parseRepoUrl ''https://example.com/'' = Inl ''Invalid repository URL''"
proof -
  have c: "parseRepoUrl url = Inl ''Invalid repository URL''" if "CHR ''/'' \<notin> set url"
    using match_repo_no_slash [OF that] by (simp add: parseRepoUrl_def)
  have e1: "parseRepoUrl ''https://example.com/group/project.git'' = Inr ''project''"
    using parseRepoUrl_segment [of "''project.git''" "''https://example.com/group''"]
    by (simp add: strip_git_def)
  have e2: "parseRepoUrl ''https://example.com/group/project'' = Inr ''project''"
    using parseRepoUrl_segment [of "''project''" "''https://example.com/group''"]
    by (simp add: strip_git_def)
  have e3: "parseRepoUrl ''https://example.com/'' = Inl ''Invalid repository URL''"
    using parseRepoUrl_trailing_slash [of "''https://example.com''"] by simp
  show ?thesis
    using parseRepoUrl_segment parseRepoUrl_trailing_slash c strip_git_suffix strip_git_plain
      e1 e2 e3 by blast
qed

text \<open>The theorem at a concrete URL, a concrete string without a slash and two segments.\<close>

theorem parseRepoUrl_final_segment_witness:
  "parseRepoUrl (''git@host:team'' @ ''/'' @ ''tool.git'') = Inr ''tool''
   \<and> parseRepoUrl ''no-slash-here'' = Inl ''Invalid repository URL''
   \<and> strip_git (''tool'' @ ''.git'') = ''tool''
   \<and> strip_git ''.git'' = ''.git''"
proof -
  have h1: "''tool.git'' \<noteq> [] \<and> CHR ''/'' \<notin> set ''tool.git''" by simp
  have h2: "CHR ''/'' \<notin> set ''no-slash-here''" by simp
  have h3: "''tool'' \<noteq> []" by simp
  have h4: "\<forall>xs. xs \<noteq> [] \<longrightarrow> ''.git'' \<noteq> xs @ ''.git''" by simp
  show ?thesis
    using parseRepoUrl_final_segment
      [of "''tool.git''" "''git@host:team''" "''no-slash-here''" "''tool''"]
      parseRepoUrl_final_segment
      [of "''tool.git''" "''git@host:team''" "''no-slash-here''" "''.git''"] h1 h2 h3 h4
    by (simp add: strip_git_def)
qed

section \<open>Facts about running commands and about the example platform\<close>

lemma execAsync_trace: "trace (snd (execAsync env c w)) = trace w @ [c]"
  by (simp add: execAsync_def split: prod.splits)

lemma execAsync_files:
  "execAsync env c w = (r, w') \<Longrightarrow> files w' = snd (tool env c w)"
  by (auto simp: execAsync_def split: prod.splits)

lemma project_manager_simps:
  "baseDir project_manager = ''/work/repositories''"
  "repositoryName project_manager = ''project''"
  "repositoryPath project_manager = ''/work/repositories/project''"
  "barePath project_manager = ''/work/repositories/project/.bare''"
  "this_defaultBranch project_manager = ''main''"
  "configPath (configManager project_manager) = ''/work/repositories/project/.worktree.json''"
  by (simp_all add: project_manager_def new_WorktreeManager_def posix_env_def posix_join_def
      new_RepositoryConfigManager_def or_else_def Let_def)

lemma posix_env_simps:
  "path_join (posix_env table) a b = a @ ''/'' @ b"
  "dirname (posix_env table) = posix_dirname"
  "ancestors (posix_env table) = posix_ancestors"
  "tool (posix_env table) = table_tool table"
  by (simp_all add: posix_env_def posix_join_def)


section \<open>Theorems: listWorktrees\<close>

lemma worktrees_loop_eq:
  "worktrees_loop lines i acc =
     acc @ map (worktree_entry lines)
             (filter (\<lambda>j. startsWith (lines ! j) ''worktree '') [i..<length lines])"
proof (induction lines i acc rule: worktrees_loop.induct)
  case (1 lines i worktrees)
  show ?case
  proof (cases "i < length lines")
    case False
    then show ?thesis by (simp add: worktrees_loop.simps [of lines i])
  next
    case True
    then have upt: "[i..<length lines] = i # [i + 1..<length lines]"
      by (simp add: upt_conv_Cons)
    show ?thesis
    proof (cases "startsWith (lines ! i) ''worktree ''")
      case hit: True
      then show ?thesis
        using True "1.IH"(1) [OF True hit] upt
        by (simp add: worktrees_loop.simps [of lines i])
    next
      case miss: False
      then show ?thesis
        using True "1.IH"(2) [OF True miss] upt
        by (simp add: worktrees_loop.simps [of lines i])
    qed
  qed
qed

lemma parse_worktrees_eq:
  "parse_worktrees stdout =
     map (worktree_entry (split_lines stdout))
       (filter (\<lambda>j. startsWith (split_lines stdout ! j) ''worktree '')
          [0..<length (split_lines stdout)])"
  by (simp add: parse_worktrees_def worktrees_loop_eq)

lemma replace_prefix: "replace (''branch refs/heads/'' @ b) ''branch refs/heads/'' [] = b"
  by (simp add: startsWith_def)

lemma branch_label_branch: "branch_label (Some (''branch refs/heads/'' @ b)) = b"
  using replace_prefix [of b] by (simp add: branch_label_def)

lemma listWorktrees_success:
  assumes "existsSync w (barePath m)" "tool env (cmd_worktree_list m) w = (Inr stdout, fs')"
  shows "listWorktrees env m w =
           (Inr (parse_worktrees stdout), \<lparr>files = fs', trace = trace w @ [cmd_worktree_list m]\<rparr>)"
  using assms by (simp add: listWorktrees_def listWorktrees_try_def execAsync_def rethrow_def)

lemma three_worktrees_parse:
  "parse_worktrees three_worktrees =
     [''/repo/main (main)'', ''/repo/feature (feature)'', ''/repo/hotfix (detached)'']"
  unfolding three_worktrees_def parse_worktrees_eq
  by (simp add: worktree_entry_def branch_label_def line_at_def startsWith_def substring_def)


text \<open>
  Claim C6. When the bare storage is there and the tool answers, \<open>listWorktrees\<close>
  returns the parse of the tool's output. The parse has one entry for every line that
  starts with \<^verbatim>\<open>worktree \<close>, in the order of the lines; the entry is the rest of that line
  and, in parentheses, the label read two lines further down: what follows
  \<^verbatim>\<open>branch refs/heads/\<close> on that line, and \<^verbatim>\<open>detached\<close> when there is no such line. The
  listing of three worktrees, the last one detached, gives its three entries in order.
\<close>

theorem listWorktrees_records:
  "(existsSync w (barePath m) \<and> tool env (cmd_worktree_list m) w = (Inr stdout, fs')
      \<longrightarrow> fst (listWorktrees env m w) = Inr (parse_worktrees stdout))
   \<and> parse_worktrees stdout =
       map (worktree_entry (split_lines stdout))
         (filter (\<lambda>j. startsWith (split_lines stdout ! j) ''worktree '')
            [0..<length (split_lines stdout)])
   \<and> worktree_entry lines i =
       substring (lines ! i) 9 @ '' ('' @ branch_label (line_at lines (i + 2)) @ '')''
   \<and> (i + 2 < length lines \<and> lines ! (i + 2) = ''branch refs/heads/'' @ b
        \<longrightarrow> branch_label (line_at lines (i + 2)) = b)
   \<and> (length lines \<le> i + 2 \<longrightarrow> branch_label (line_at lines (i + 2)) = ''detached'')
   \<and> parse_worktrees three_worktrees =
       [''/repo/main (main)'', ''/repo/feature (feature)'', ''/repo/hotfix (detached)'']"
proof -
  have a: "fst (listWorktrees env m w) = Inr (parse_worktrees stdout)"
    if "existsSync w (barePath m)" "tool env (cmd_worktree_list m) w = (Inr stdout, fs')"
    using listWorktrees_success [OF that] by simp
  have b: "worktree_entry lines i =
       substring (lines ! i) 9 @ '' ('' @ branch_label (line_at lines (i + 2)) @ '')''"
    by (simp add: worktree_entry_def)
  have c: "branch_label (line_at lines (i + 2)) = b"
    if "i + 2 < length lines" "lines ! (i + 2) = ''branch refs/heads/'' @ b"
    using that branch_label_branch [of b] by (simp add: line_at_def)
  have d: "branch_label (line_at lines (i + 2)) = ''detached''" if "length lines \<le> i + 2"
    using that by (simp add: line_at_def branch_label_def)
  show ?thesis using a b c d parse_worktrees_eq three_worktrees_parse by blast
qed

text \<open>The theorem at the cloned workspace, where the tool prints the listing of three worktrees.\<close>

theorem listWorktrees_records_witness:
  "existsSync cloned_world (barePath project_manager)
   \<and> fst (listWorktrees (posix_env [(cmd_worktree_list project_manager, Inr three_worktrees)])
             project_manager cloned_world)
       = Inr [''/repo/main (main)'', ''/repo/feature (feature)'', ''/repo/hotfix (detached)'']
   \<and> branch_label (line_at (split_lines three_worktrees) (0 + 2)) = ''main''
   \<and> branch_label (line_at [''worktree /repo/x'', ''HEAD 4444''] (0 + 2)) = ''detached''"
proof -
  let ?env = "posix_env [(cmd_worktree_list project_manager, Inr three_worktrees)]"
  have h1: "existsSync cloned_world (barePath project_manager)"
    by (simp add: existsSync_def cloned_world_def project_manager_simps)
  have h2: "tool ?env (cmd_worktree_list project_manager) cloned_world
              = (Inr three_worktrees, files cloned_world)"
    by (simp add: posix_env_simps table_tool_def)
  have h3: "0 + 2 < length (split_lines three_worktrees)
            \<and> split_lines three_worktrees ! (0 + 2) = ''branch refs/heads/'' @ ''main''"
    by (simp add: three_worktrees_def)
  have h4: "length [''worktree /repo/x'', ''HEAD 4444''] \<le> 0 + 2" by simp
  show ?thesis
    using h1 h2 h3 h4
      listWorktrees_records [of cloned_world project_manager ?env three_worktrees
        "files cloned_world" "split_lines three_worktrees" 0 "''main''"]
      listWorktrees_records [of cloned_world project_manager ?env three_worktrees
        "files cloned_world" "[''worktree /repo/x'', ''HEAD 4444'']" 0 "''main''"]
    by simp
qed



section \<open>Theorems: listRemoteBranches\<close>

lemma fold_set_values:
  "set (fold (\<lambda>x acc. if x \<in> set acc then acc else acc @ [x]) xs acc) = set acc \<union> set xs
   \<and> (distinct acc \<longrightarrow> distinct (fold (\<lambda>x acc. if x \<in> set acc then acc else acc @ [x]) xs acc))"
  by (induction xs arbitrary: acc) auto

lemma set_set_values: "set (set_values xs) = set xs"
  using fold_set_values [of xs "[]"] by (simp add: set_values_def)

lemma distinct_set_values: "distinct (set_values xs)"
  using fold_set_values [of xs "[]"] by (simp add: set_values_def)

lemma startsWith_split: "startsWith s t \<Longrightarrow> s = t @ drop (length t) s"
  unfolding startsWith_def using append_take_drop_id [of "length t" s] by simp

lemma match_head_found:
  "match_head line = Some b \<Longrightarrow> \<exists>pre. line = pre @ ''refs/heads/'' @ b"
proof (induction line)
  case Nil
  then show ?case by simp
next
  case (Cons c cs)
  show ?case
  proof (cases "startsWith (c # cs) ''refs/heads/''
                 \<and> dots_to_end (drop (length ''refs/heads/'') (c # cs))")
    case True
    then have "Some b = Some (drop (length ''refs/heads/'') (c # cs))" using Cons.prems by simp
    moreover have "c # cs = ''refs/heads/'' @ drop (length ''refs/heads/'') (c # cs)"
      using True by (intro startsWith_split) simp
    ultimately have "c # cs = [] @ ''refs/heads/'' @ b" by simp
    then show ?thesis by blast
  next
    case False
    then have "match_head cs = Some b" using Cons.prems by auto
    then obtain pre where "cs = pre @ ''refs/heads/'' @ b" using Cons.IH by blast
    then have "c # cs = (c # pre) @ ''refs/heads/'' @ b" by simp
    then show ?thesis by blast
  qed
qed

lemma trim_not_empty:
  assumes "x \<in> set s" "\<not> isWhiteSpace x"
  shows "trim s \<noteq> []"
proof -
  let ?d = "dropWhile isWhiteSpace s"
  have "?d \<noteq> []" using assms by auto
  then have "\<not> isWhiteSpace (hd ?d)" by (simp add: hd_dropWhile)
  moreover have "hd ?d \<in> set (rev ?d)" using \<open>?d \<noteq> []\<close> by simp
  ultimately have "dropWhile isWhiteSpace (rev ?d) \<noteq> []"
    by auto
  then show ?thesis by (simp add: trim_def)
qed

lemma match_head_not_blank: "match_head line = Some b \<Longrightarrow> trim line \<noteq> []"
proof -
  assume "match_head line = Some b"
  then obtain pre where "line = pre @ ''refs/heads/'' @ b" using match_head_found by blast
  then have "CHR ''r'' \<in> set line" by simp
  moreover have "\<not> isWhiteSpace CHR ''r''" by (simp add: isWhiteSpace_def)
  ultimately show ?thesis by (rule trim_not_empty)
qed

lemma set_remote_branches:
  "set (remote_branches stdout) = {b. \<exists>line \<in> set (split_lines stdout). match_head line = Some b}"
proof -
  have "set (map the (filter (\<lambda>branch. branch \<noteq> None)
              (map match_head (filter (\<lambda>line. trim line \<noteq> []) (split_lines stdout)))))
        = {b. \<exists>line \<in> set (split_lines stdout). match_head line = Some b}"
    (is "?L = ?R")
  proof
    show "?L \<subseteq> ?R" by auto
    show "?R \<subseteq> ?L"
    proof
      fix b assume "b \<in> ?R"
      then obtain line where l: "line \<in> set (split_lines stdout)" "match_head line = Some b"
        by blast
      then have "trim line \<noteq> []" using match_head_not_blank by blast
      then have "Some b \<in> set (filter (\<lambda>branch. branch \<noteq> None)
              (map match_head (filter (\<lambda>line. trim line \<noteq> []) (split_lines stdout))))"
        using l by force
      then have "the (Some b) \<in> ?L" by (simp only: set_map image_eqI)
      then show "b \<in> ?L" by simp
    qed
  qed
  then show ?thesis by (simp add: remote_branches_def set_set_values)
qed

lemma distinct_remote_branches: "distinct (remote_branches stdout)"
  by (simp add: remote_branches_def distinct_set_values)

lemma sorted_remote_branches: "sorted (remote_branches stdout)"
  by (simp add: remote_branches_def)

lemma remote_branches_same_lines:
  assumes "set (split_lines out1) = set (split_lines out2)"
  shows "remote_branches out1 = remote_branches out2"
proof (rule sorted_distinct_set_unique)
  show "set (remote_branches out1) = set (remote_branches out2)"
    using assms by (simp add: set_remote_branches)
qed (simp_all add: distinct_remote_branches sorted_remote_branches)

lemma match_head_after:
  "CHR ''r'' \<notin> set pre \<Longrightarrow> dots_to_end name \<Longrightarrow>
   match_head (pre @ ''refs/heads/'' @ name) = Some name"
proof (induction pre)
  case Nil
  then show ?case by (simp add: startsWith_def)
next
  case (Cons c pre)
  then have "c \<noteq> CHR ''r''" by auto
  then have "\<not> startsWith (c # pre @ ''refs/heads/'' @ name) ''refs/heads/''"
    by (simp add: startsWith_def)
  then show ?case using Cons by simp
qed

lemma listRemoteBranches_result:
  assumes "fst (listRemoteBranches env m w) = Inr bs"
  shows "\<exists>stdout. bs = remote_branches stdout"
  using assms
  by (auto simp: listRemoteBranches_def listRemoteBranches_try_def rethrow_def
      split: prod.splits sum.splits if_splits)

lemma listRemoteBranches_success:
  assumes "existsSync w (barePath m)"
    and "execAsync env (cmd_fetch_prune m) w = (Inr out0, w1)"
    and "execAsync env (cmd_ls_remote m) w1 = (Inr listing, w2)"
  shows "listRemoteBranches env m w = (Inr (remote_branches listing), w2)"
  using assms by (simp add: listRemoteBranches_def listRemoteBranches_try_def rethrow_def)

lemma listRemoteBranches_steps:
  assumes "fst (listRemoteBranches env m w) = Inr bs"
  shows "\<exists>out0 w1 listing w2.
           existsSync w (barePath m)
         \<and> execAsync env (cmd_fetch_prune m) w = (Inr out0, w1)
         \<and> execAsync env (cmd_ls_remote m) w1 = (Inr listing, w2)
         \<and> bs = remote_branches listing"
proof -
  have bare: "existsSync w (barePath m)"
    using assms
    by (auto simp: listRemoteBranches_def listRemoteBranches_try_def rethrow_def
        split: if_splits)
  obtain r1 w1 where e1: "execAsync env (cmd_fetch_prune m) w = (r1, w1)" by fastforce
  obtain out0 where r1: "r1 = Inr out0"
    using assms bare e1
    by (cases r1) (simp_all add: listRemoteBranches_def listRemoteBranches_try_def rethrow_def)
  obtain r2 w2 where e2: "execAsync env (cmd_ls_remote m) w1 = (r2, w2)" by fastforce
  obtain listing where r2: "r2 = Inr listing"
    using assms bare e1 r1 e2
    by (cases r2) (simp_all add: listRemoteBranches_def listRemoteBranches_try_def rethrow_def)
  have "bs = remote_branches listing"
    using assms listRemoteBranches_success [OF bare e1 [unfolded r1] e2 [unfolded r2]] by simp
  then show ?thesis using bare e1 r1 e2 r2 by blast
qed

lemma ls_remote_one_branches:
  "remote_branches ls_remote_one = [''develop'', ''feature/x'', ''main'']"
  by (simp add: remote_branches_def ls_remote_one_def ref_line_def trim_def isWhiteSpace_def
      startsWith_def dots_to_end_def isLineTerminator_def set_values_def)

text \<open>
  Claim C8. When the bare storage is there and the fetch and \<^verbatim>\<open>git ls-remote\<close> both
  succeed, \<open>listRemoteBranches\<close> returns \<open>remote_branches\<close> of the standard output of
  \<^verbatim>\<open>git ls-remote\<close>, and it returns a list in no other case. For every listing that
  result has no duplicates, is in ascending order, and holds exactly the names that the
  pattern \<^verbatim>\<open>refs/heads/<name>\<close> finds on the lines (on a line made of a hash, a tab and
  the ref, the name is what follows \<^verbatim>\<open>refs/heads/\<close>). Two listings with the same lines
  in any order, with any repetitions, give the same result; so two runs of the operation
  in which the remote reports the same lines in different orders return the same list.
\<close>

theorem listRemoteBranches_sorted_unique:
  "(existsSync w (barePath m)
      \<and> execAsync env (cmd_fetch_prune m) w = (Inr out0, w1)
      \<and> execAsync env (cmd_ls_remote m) w1 = (Inr listing, w2)
      \<longrightarrow> listRemoteBranches env m w = (Inr (remote_branches listing), w2))
   \<and> (fst (listRemoteBranches env m w) = Inr bs
      \<longrightarrow> (\<exists>out0 w1 listing w2.
              existsSync w (barePath m)
            \<and> execAsync env (cmd_fetch_prune m) w = (Inr out0, w1)
            \<and> execAsync env (cmd_ls_remote m) w1 = (Inr listing, w2)
            \<and> bs = remote_branches listing))
   \<and> (existsSync w (barePath m)
      \<and> execAsync env (cmd_fetch_prune m) w = (Inr out0, w1)
      \<and> execAsync env (cmd_ls_remote m) w1 = (Inr listing, w2)
      \<and> existsSync w' (barePath m')
      \<and> execAsync env' (cmd_fetch_prune m') w' = (Inr out0', w1')
      \<and> execAsync env' (cmd_ls_remote m') w1' = (Inr listing', w2')
      \<and> mset (split_lines listing) = mset (split_lines listing')
      \<longrightarrow> fst (listRemoteBranches env m w) = fst (listRemoteBranches env' m' w')
          \<and> fst (listRemoteBranches env m w) = Inr (remote_branches listing)
          \<and> distinct (remote_branches listing) \<and> sorted (remote_branches listing))
   \<and> (fst (listRemoteBranches env m w) = Inr bs
      \<longrightarrow> (\<exists>stdout. bs = remote_branches stdout) \<and> distinct bs \<and> sorted bs)
   \<and> distinct (remote_branches stdout) \<and> sorted (remote_branches stdout)
   \<and> set (remote_branches stdout)
       = {b. \<exists>line \<in> set (split_lines stdout). match_head line = Some b}
   \<and> (CHR ''r'' \<notin> set sha \<and> name \<noteq> [] \<and> \<not> list_ex isLineTerminator name
        \<longrightarrow> match_head (sha @ [CHR 0x09] @ ''refs/heads/'' @ name) = Some name)
   \<and> (mset (split_lines out1) = mset (split_lines out2)
        \<longrightarrow> remote_branches out1 = remote_branches out2)
   \<and> (set (split_lines out1) = set (split_lines out2)
        \<longrightarrow> remote_branches out1 = remote_branches out2)"
proof -
  have a: "(\<exists>stdout. bs = remote_branches stdout) \<and> distinct bs \<and> sorted bs"
    if "fst (listRemoteBranches env m w) = Inr bs"
    using listRemoteBranches_result [OF that] distinct_remote_branches sorted_remote_branches
    by blast
  have b: "match_head (sha @ [CHR 0x09] @ ''refs/heads/'' @ name) = Some name"
    if "CHR ''r'' \<notin> set sha" "name \<noteq> []" "\<not> list_ex isLineTerminator name"
    using match_head_after [of "sha @ [CHR 0x09]" name] that by (simp add: dots_to_end_def)
  have c: "remote_branches out1 = remote_branches out2"
    if "mset (split_lines out1) = mset (split_lines out2)" for out1 out2
    using remote_branches_same_lines mset_eq_setD [OF that] by blast
  have d: "listRemoteBranches env m w = (Inr (remote_branches listing), w2)"
    if "existsSync w (barePath m)" "execAsync env (cmd_fetch_prune m) w = (Inr out0, w1)"
      "execAsync env (cmd_ls_remote m) w1 = (Inr listing, w2)"
    using listRemoteBranches_success [OF that] .
  have e: "fst (listRemoteBranches env m w) = fst (listRemoteBranches env' m' w')
          \<and> fst (listRemoteBranches env m w) = Inr (remote_branches listing)
          \<and> distinct (remote_branches listing) \<and> sorted (remote_branches listing)"
    if "existsSync w (barePath m)" "execAsync env (cmd_fetch_prune m) w = (Inr out0, w1)"
      "execAsync env (cmd_ls_remote m) w1 = (Inr listing, w2)"
      "existsSync w' (barePath m')" "execAsync env' (cmd_fetch_prune m') w' = (Inr out0', w1')"
      "execAsync env' (cmd_ls_remote m') w1' = (Inr listing', w2')"
      "mset (split_lines listing) = mset (split_lines listing')"
    using listRemoteBranches_success [OF that(1,2,3)] listRemoteBranches_success [OF that(4,5,6)]
      c [OF that(7)] distinct_remote_branches sorted_remote_branches
    by simp
  have f: "\<exists>out0 w1 listing w2.
              existsSync w (barePath m)
            \<and> execAsync env (cmd_fetch_prune m) w = (Inr out0, w1)
            \<and> execAsync env (cmd_ls_remote m) w1 = (Inr listing, w2)
            \<and> bs = remote_branches listing"
    if "fst (listRemoteBranches env m w) = Inr bs"
    using listRemoteBranches_steps [OF that] .
  have first: "(existsSync w (barePath m)
      \<and> execAsync env (cmd_fetch_prune m) w = (Inr out0, w1)
      \<and> execAsync env (cmd_ls_remote m) w1 = (Inr listing, w2)
      \<longrightarrow> listRemoteBranches env m w = (Inr (remote_branches listing), w2))
   \<and> (fst (listRemoteBranches env m w) = Inr bs
      \<longrightarrow> (\<exists>out0 w1 listing w2.
              existsSync w (barePath m)
            \<and> execAsync env (cmd_fetch_prune m) w = (Inr out0, w1)
            \<and> execAsync env (cmd_ls_remote m) w1 = (Inr listing, w2)
            \<and> bs = remote_branches listing))
   \<and> (existsSync w (barePath m)
      \<and> execAsync env (cmd_fetch_prune m) w = (Inr out0, w1)
      \<and> execAsync env (cmd_ls_remote m) w1 = (Inr listing, w2)
      \<and> existsSync w' (barePath m')
      \<and> execAsync env' (cmd_fetch_prune m') w' = (Inr out0', w1')
      \<and> execAsync env' (cmd_ls_remote m') w1' = (Inr listing', w2')
      \<and> mset (split_lines listing) = mset (split_lines listing')
      \<longrightarrow> fst (listRemoteBranches env m w) = fst (listRemoteBranches env' m' w')
          \<and> fst (listRemoteBranches env m w) = Inr (remote_branches listing)
          \<and> distinct (remote_branches listing) \<and> sorted (remote_branches listing))"
    using d e f by blast
  have second: "(fst (listRemoteBranches env m w) = Inr bs
      \<longrightarrow> (\<exists>stdout. bs = remote_branches stdout) \<and> distinct bs \<and> sorted bs)
   \<and> distinct (remote_branches stdout) \<and> sorted (remote_branches stdout)
   \<and> set (remote_branches stdout)
       = {b. \<exists>line \<in> set (split_lines stdout). match_head line = Some b}
   \<and> (CHR ''r'' \<notin> set sha \<and> name \<noteq> [] \<and> \<not> list_ex isLineTerminator name
        \<longrightarrow> match_head (sha @ [CHR 0x09] @ ''refs/heads/'' @ name) = Some name)
   \<and> (mset (split_lines out1) = mset (split_lines out2)
        \<longrightarrow> remote_branches out1 = remote_branches out2)
   \<and> (set (split_lines out1) = set (split_lines out2)
        \<longrightarrow> remote_branches out1 = remote_branches out2)"
    using a b c distinct_remote_branches sorted_remote_branches set_remote_branches
      remote_branches_same_lines by blast
  show ?thesis using first second by blast
qed

text \<open>
  The theorem at the cloned workspace with two tools whose remotes report the same lines
  in different orders: both runs return the same sorted list without duplicates.
\<close>

theorem listRemoteBranches_sorted_unique_witness:
  "listRemoteBranches
      (posix_env [(cmd_fetch_prune project_manager, Inr []),
                  (cmd_ls_remote project_manager, Inr ls_remote_one)])
      project_manager cloned_world
     = (Inr [''develop'', ''feature/x'', ''main''],
        \<lparr>files = files cloned_world,
           trace = [cmd_fetch_prune project_manager, cmd_ls_remote project_manager]\<rparr>)
   \<and> fst (listRemoteBranches
          (posix_env [(cmd_fetch_prune project_manager, Inr []),
                      (cmd_ls_remote project_manager, Inr ls_remote_two)])
          project_manager cloned_world) = Inr [''develop'', ''feature/x'', ''main'']
   \<and> distinct [''develop'', ''feature/x'', ''main''] \<and> sorted [''develop'', ''feature/x'', ''main'']
   \<and> match_head (''5e6f'' @ [CHR 0x09] @ ''refs/heads/'' @ ''feature/x'') = Some ''feature/x''
   \<and> mset (split_lines ls_remote_one) = mset (split_lines ls_remote_two)
   \<and> split_lines ls_remote_one \<noteq> split_lines ls_remote_two
   \<and> remote_branches ls_remote_one = remote_branches ls_remote_two"
proof -
  let ?env1 = "posix_env [(cmd_fetch_prune project_manager, Inr []),
                          (cmd_ls_remote project_manager, Inr ls_remote_one)]"
  let ?env2 = "posix_env [(cmd_fetch_prune project_manager, Inr []),
                          (cmd_ls_remote project_manager, Inr ls_remote_two)]"
  let ?w1 = "\<lparr>files = files cloned_world, trace = [cmd_fetch_prune project_manager]\<rparr>"
  let ?w2 = "\<lparr>files = files cloned_world,
               trace = [cmd_fetch_prune project_manager, cmd_ls_remote project_manager]\<rparr>"
  have bare: "existsSync cloned_world (barePath project_manager)"
    by (simp add: existsSync_def cloned_world_def project_manager_simps)
  have tr: "trace cloned_world = []" by (simp add: cloned_world_def)
  have f1: "execAsync ?env1 (cmd_fetch_prune project_manager) cloned_world = (Inr [], ?w1)"
    and f2: "execAsync ?env2 (cmd_fetch_prune project_manager) cloned_world = (Inr [], ?w1)"
    using tr
    by (simp_all add: execAsync_def posix_env_simps table_tool_def cmd_fetch_prune_def
        cmd_ls_remote_def in_bare_def)
  have l1: "execAsync ?env1 (cmd_ls_remote project_manager) ?w1 = (Inr ls_remote_one, ?w2)"
    and l2: "execAsync ?env2 (cmd_ls_remote project_manager) ?w1 = (Inr ls_remote_two, ?w2)"
    by (simp_all add: execAsync_def posix_env_simps table_tool_def cmd_fetch_prune_def
        cmd_ls_remote_def in_bare_def)
  have h2: "CHR ''r'' \<notin> set ''5e6f'' \<and> ''feature/x'' \<noteq> []
            \<and> \<not> list_ex isLineTerminator ''feature/x''"
    by (simp add: isLineTerminator_def)
  have h3: "mset (split_lines ls_remote_one) = mset (split_lines ls_remote_two)"
    by (simp add: ls_remote_one_def ls_remote_two_def ref_line_def)
  have h4: "split_lines ls_remote_one \<noteq> split_lines ls_remote_two"
    by (simp add: ls_remote_one_def ls_remote_two_def ref_line_def)
  note run = listRemoteBranches_sorted_unique [where env = ?env1 and m = project_manager
      and w = cloned_world and ?out0.0 = "[]" and ?w1.0 = ?w1 and listing = ls_remote_one
      and ?w2.0 = ?w2 and env' = ?env2 and m' = project_manager and w' = cloned_world
      and out0' = "[]" and w1' = ?w1 and listing' = ls_remote_two and w2' = ?w2
      and sha = "''5e6f''" and name = "''feature/x''"
      and ?out1.0 = ls_remote_one and ?out2.0 = ls_remote_two]
  have r1: "listRemoteBranches ?env1 project_manager cloned_world
              = (Inr (remote_branches ls_remote_one), ?w2)"
    using run bare f1 l1 by blast
  have r2: "fst (listRemoteBranches ?env1 project_manager cloned_world)
              = fst (listRemoteBranches ?env2 project_manager cloned_world)"
    using run bare f1 l1 f2 l2 h3 by blast
  have r3: "match_head (''5e6f'' @ [CHR 0x09] @ ''refs/heads/'' @ ''feature/x'') = Some ''feature/x''"
    using run h2 by blast
  have r4: "remote_branches ls_remote_one = remote_branches ls_remote_two"
    using run h3 by blast
  have c1: "listRemoteBranches ?env1 project_manager cloned_world
              = (Inr [''develop'', ''feature/x'', ''main''], ?w2)"
    using r1 unfolding ls_remote_one_branches .
  have c2: "fst (listRemoteBranches ?env2 project_manager cloned_world)
              = Inr [''develop'', ''feature/x'', ''main'']"
    using r2 c1 by simp
  have d1: "distinct [''develop'', ''feature/x'', ''main'']"
    and d2: "sorted [''develop'', ''feature/x'', ''main'']"
    by simp_all
  show ?thesis
    using c1 c2 d1 d2 r3 h3 h4 r4 by blast
qed

section \<open>Theorems: removeWorktree\<close>

lemma includes_toString:
  "js_includes (error_toString e) ''contains modified or untracked files''
     = js_includes e ''contains modified or untracked files''"
  by (cases e) (simp_all add: error_toString_def startsWith_def)

lemma removeWorktree_catch_short_eq:
  "removeWorktree_catch_short m b force e = removeWorktree_catch m b force e"
  by (simp add: removeWorktree_catch_short_def removeWorktree_catch_def includes_toString)

lemma removeWorktree_short_eq:
  "removeWorktree_short env m b force w = removeWorktree env m b force w"
  by (simp add: removeWorktree_short_def removeWorktree_def removeWorktree_catch_short_eq
      split: prod.splits sum.splits)

lemma dirty_not_generic: "dirty_message m b \<noteq> ''Failed to remove worktree: '' @ x"
  by (simp add: dirty_message_def)

lemma not_found_not_dirty:
  "\<not> js_includes ''Repository not found.'' ''contains modified or untracked files''"
  by (simp add: startsWith_def)

lemma removeWorktree_no_repository:
  "\<not> existsSync w (barePath m) \<Longrightarrow>
   removeWorktree env m b force w
     = (Inl ''Failed to remove worktree: Error: Repository not found.'', w)"
  using not_found_not_dirty
  by (simp add: removeWorktree_def removeWorktree_try_def removeWorktree_catch_def
      error_toString_def)

lemma removeWorktree_tool_failure:
  assumes "existsSync w (barePath m)"
    and "fst (tool env (cmd_worktree_remove m force (path_join env (repositoryPath m) b)) w) = Inl msg"
  shows "fst (removeWorktree env m b force w) =
           Inl (if \<not> force \<and> js_includes msg ''contains modified or untracked files''
                then dirty_message m b
                else ''Failed to remove worktree: '' @ error_toString msg)"
proof -
  obtain fs' where "tool env (cmd_worktree_remove m force (path_join env (repositoryPath m) b)) w
                      = (Inl msg, fs')"
    using assms(2) by (metis fst_conv surj_pair)
  then show ?thesis
    using assms(1)
    by (simp add: removeWorktree_def removeWorktree_try_def removeWorktree_catch_def
        execAsync_def Let_def)
qed

lemma removeWorktree_tool_success:
  assumes "existsSync w (barePath m)"
    and "fst (tool env (cmd_worktree_remove m force (path_join env (repositoryPath m) b)) w) = Inr out"
  shows "fst (removeWorktree env m b force w) = Inr ()"
proof -
  obtain fs' where "tool env (cmd_worktree_remove m force (path_join env (repositoryPath m) b)) w
                      = (Inr out, fs')"
    using assms(2) by (metis fst_conv surj_pair)
  then show ?thesis
    using assms(1)
    by (simp add: removeWorktree_def removeWorktree_try_def execAsync_def Let_def)
qed

text \<open>
  Claim C5. \<open>removeWorktree\<close> fails with the dirty-worktree message exactly when
  \<open>force\<close> is false, the bare storage is there, and the tool rejects the removal with a
  message that contains \<^verbatim>\<open>contains modified or untracked files\<close>. Every rejection by
  the tool makes the call fail: with the dirty-worktree message in the case just named,
  and otherwise (another message, or \<open>force\<close> true, that phrase included) with
  \<^verbatim>\<open>Failed to remove worktree: <cause>\<close>, a form the dirty-worktree message never has.
  A missing bare storage fails in that form too, and the call succeeds when the tool
  accepts the removal. The two copies of the method agree.
\<close>

theorem removeWorktree_dirty_exactly:
  "(fst (removeWorktree env m b force w) = Inl (dirty_message m b)
      \<longleftrightarrow> \<not> force \<and> existsSync w (barePath m)
          \<and> (\<exists>msg. fst (tool env (cmd_worktree_remove m force (path_join env (repositoryPath m) b)) w)
                      = Inl msg
                    \<and> js_includes msg ''contains modified or untracked files''))
   \<and> (fst (removeWorktree env m b force w) = Inl e \<and> e \<noteq> dirty_message m b
        \<longrightarrow> (\<exists>cause. e = ''Failed to remove worktree: '' @ error_toString cause))
   \<and> (existsSync w (barePath m)
        \<and> fst (tool env (cmd_worktree_remove m force (path_join env (repositoryPath m) b)) w) = Inl msg
        \<longrightarrow> fst (removeWorktree env m b force w)
              = Inl (if \<not> force \<and> js_includes msg ''contains modified or untracked files''
                     then dirty_message m b
                     else ''Failed to remove worktree: '' @ error_toString msg))
   \<and> (existsSync w (barePath m)
        \<and> fst (tool env (cmd_worktree_remove m force (path_join env (repositoryPath m) b)) w) = Inr out
        \<longrightarrow> fst (removeWorktree env m b force w) = Inr ())
   \<and> (\<not> existsSync w (barePath m)
        \<longrightarrow> fst (removeWorktree env m b force w)
              = Inl ''Failed to remove worktree: Error: Repository not found.'')
   \<and> dirty_message m b \<noteq> ''Failed to remove worktree: '' @ x
   \<and> removeWorktree_short env m b force w = removeWorktree env m b force w"
proof -
  let ?cmd = "cmd_worktree_remove m force (path_join env (repositoryPath m) b)"
  let ?r = "fst (removeWorktree env m b force w)"
  have cases: "\<not> existsSync w (barePath m)
      \<or> (existsSync w (barePath m) \<and> (\<exists>msg. fst (tool env ?cmd w) = Inl msg))
      \<or> (existsSync w (barePath m) \<and> (\<exists>out. fst (tool env ?cmd w) = Inr out))"
    by (cases "fst (tool env ?cmd w)") auto
  have a: "?r = Inl (dirty_message m b)
      \<longleftrightarrow> \<not> force \<and> existsSync w (barePath m)
          \<and> (\<exists>msg. fst (tool env ?cmd w) = Inl msg
                    \<and> js_includes msg ''contains modified or untracked files'')"
  proof -
    consider (none) "\<not> existsSync w (barePath m)"
      | (fail) msg where "existsSync w (barePath m)" "fst (tool env ?cmd w) = Inl msg"
      | (ok) out where "existsSync w (barePath m)" "fst (tool env ?cmd w) = Inr out"
      using cases by blast
    then show ?thesis
    proof cases
      case none
      then show ?thesis
        using removeWorktree_no_repository [OF none, of env b force]
          dirty_not_generic [of m b "''Error: Repository not found.''"]
        by auto
    next
      case fail
      then show ?thesis
        using removeWorktree_tool_failure [OF fail] dirty_not_generic [of m b "error_toString msg"]
        by auto
    next
      case ok
      then show ?thesis using removeWorktree_tool_success [OF ok] by auto
    qed
  qed
  have b: "\<exists>cause. e = ''Failed to remove worktree: '' @ error_toString cause"
    if "?r = Inl e" "e \<noteq> dirty_message m b"
  proof -
    consider (none) "\<not> existsSync w (barePath m)"
      | (fail) msg where "existsSync w (barePath m)" "fst (tool env ?cmd w) = Inl msg"
      | (ok) out where "existsSync w (barePath m)" "fst (tool env ?cmd w) = Inr out"
      using cases by blast
    then show ?thesis
    proof cases
      case none
      have "e = ''Failed to remove worktree: '' @ error_toString ''Repository not found.''"
        using removeWorktree_no_repository [OF none, of env b force] that(1)
        by (simp add: error_toString_def)
      then show ?thesis by blast
    next
      case fail
      then show ?thesis
        using removeWorktree_tool_failure [OF fail] that by (auto split: if_splits)
    next
      case ok
      then show ?thesis using removeWorktree_tool_success [OF ok] that by simp
    qed
  qed
  have c: "?r = Inl (if \<not> force \<and> js_includes msg ''contains modified or untracked files''
                     then dirty_message m b
                     else ''Failed to remove worktree: '' @ error_toString msg)"
    if "existsSync w (barePath m)" "fst (tool env ?cmd w) = Inl msg"
    using removeWorktree_tool_failure [OF that] .
  have c': "?r = Inr ()"
    if "existsSync w (barePath m)" "fst (tool env ?cmd w) = Inr out"
    using removeWorktree_tool_success [OF that] .
  have d: "?r = Inl ''Failed to remove worktree: Error: Repository not found.''"
    if "\<not> existsSync w (barePath m)"
    using removeWorktree_no_repository [OF that, of env b force] by simp
  show ?thesis
    using a b c c' d dirty_not_generic removeWorktree_short_eq by blast
qed

text \<open>
  The theorem at the cloned workspace with a tool that reports changes in the worktree
  \<^verbatim>\<open>feature\<close>, without and with \<open>force\<close>, and no worktree at \<^verbatim>\<open>gone\<close>, and at
  the workspace without bare storage.
\<close>

theorem removeWorktree_dirty_exactly_witness:
  "fst (removeWorktree refusing_env project_manager ''feature'' False cloned_world)
     = Inl (dirty_message project_manager ''feature'')
   \<and> fst (removeWorktree refusing_env project_manager ''feature'' True cloned_world)
     = Inl (''Failed to remove worktree: '' @ error_toString dirty_diagnostic)
   \<and> (\<exists>cause. ''Failed to remove worktree: '' @ error_toString dirty_diagnostic
                  = ''Failed to remove worktree: '' @ error_toString cause)
   \<and> fst (removeWorktree refusing_env project_manager ''feature'' False half_cloned_world)
     = Inl ''Failed to remove worktree: Error: Repository not found.''
   \<and> \<not> js_includes missing_diagnostic ''contains modified or untracked files''
   \<and> fst (removeWorktree refusing_env project_manager ''gone'' False cloned_world)
     = Inl (''Failed to remove worktree: '' @ error_toString missing_diagnostic)"
proof -
  have t3: "fst (tool refusing_env
                  (cmd_worktree_remove project_manager False
                     (path_join refusing_env (repositoryPath project_manager) ''gone''))
                  cloned_world) = Inl missing_diagnostic"
    by (simp add: refusing_env_def posix_env_simps table_tool_def cmd_worktree_remove_def
        in_bare_def project_manager_simps)
  have ninc: "\<not> js_includes missing_diagnostic ''contains modified or untracked files''"
    by (simp add: missing_diagnostic_def startsWith_def)
  have bare: "existsSync cloned_world (barePath project_manager)"
    by (simp add: existsSync_def cloned_world_def project_manager_simps)
  have nobare: "\<not> existsSync half_cloned_world (barePath project_manager)"
    by (simp add: existsSync_def half_cloned_world_def project_manager_simps)
  have p: "path_join refusing_env (repositoryPath project_manager) ''feature''
             = ''/work/repositories/project/feature''"
    by (simp add: refusing_env_def posix_env_simps project_manager_simps)
  have t1: "fst (tool refusing_env
                  (cmd_worktree_remove project_manager False
                     (path_join refusing_env (repositoryPath project_manager) ''feature''))
                  cloned_world) = Inl dirty_diagnostic"
    unfolding p
    by (simp add: refusing_env_def posix_env_simps table_tool_def cmd_worktree_remove_def
        in_bare_def project_manager_simps)
  have t2: "fst (tool refusing_env
                  (cmd_worktree_remove project_manager True
                     (path_join refusing_env (repositoryPath project_manager) ''feature''))
                  cloned_world) = Inl dirty_diagnostic"
    unfolding p
    by (simp add: refusing_env_def posix_env_simps table_tool_def cmd_worktree_remove_def
        in_bare_def project_manager_simps)
  have inc: "js_includes dirty_diagnostic ''contains modified or untracked files''"
    by (simp add: dirty_diagnostic_def startsWith_def)
  have ne: "''Failed to remove worktree: '' @ error_toString dirty_diagnostic
              \<noteq> dirty_message project_manager ''feature''"
    by (simp add: dirty_message_def)
  have g: "fst (removeWorktree refusing_env project_manager ''gone'' False cloned_world)
     = Inl (''Failed to remove worktree: '' @ error_toString missing_diagnostic)"
    using bare t3 ninc
      removeWorktree_dirty_exactly [where env = refusing_env and m = project_manager
        and b = "''gone''" and force = False and w = cloned_world and msg = missing_diagnostic]
    by simp
  have rest: "fst (removeWorktree refusing_env project_manager ''feature'' False cloned_world)
     = Inl (dirty_message project_manager ''feature'')
   \<and> fst (removeWorktree refusing_env project_manager ''feature'' True cloned_world)
     = Inl (''Failed to remove worktree: '' @ error_toString dirty_diagnostic)
   \<and> (\<exists>cause. ''Failed to remove worktree: '' @ error_toString dirty_diagnostic
                  = ''Failed to remove worktree: '' @ error_toString cause)
   \<and> fst (removeWorktree refusing_env project_manager ''feature'' False half_cloned_world)
     = Inl ''Failed to remove worktree: Error: Repository not found.''"
    using bare nobare t1 t2 inc ne
      removeWorktree_dirty_exactly [where env = refusing_env and m = project_manager
        and b = "''feature''" and force = False and w = cloned_world
        and e = "''Failed to remove worktree: '' @ error_toString dirty_diagnostic"
        and msg = dirty_diagnostic]
      removeWorktree_dirty_exactly [where env = refusing_env and m = project_manager
        and b = "''feature''" and force = True and w = cloned_world
        and e = "''Failed to remove worktree: '' @ error_toString dirty_diagnostic"
        and msg = dirty_diagnostic]
      removeWorktree_dirty_exactly [where env = refusing_env and m = project_manager
        and b = "''feature''" and force = False and w = half_cloned_world
        and e = "''Failed to remove worktree: Error: Repository not found.''"
        and msg = dirty_diagnostic]
    by simp
  show ?thesis using rest g ninc by blast
qed

section \<open>Theorems: createBranch\<close>

lemma getDefaultBranch_Some:
  "getDefaultBranch cm w = Some d
     \<longleftrightarrow> (\<exists>obj. files w (configPath cm) = Some (File (Json obj))
                \<and> obj ''defaultBranch'' = Some d \<and> d \<noteq> [])"
  by (auto simp: getDefaultBranch_def load_def existsSync_def readFileSync_def JSON_parse_def
      truthy_def split: option.splits node.splits filedata.splits if_splits)

lemma getDefaultBranch_truthy: "getDefaultBranch cm w = Some d \<Longrightarrow> d \<noteq> []"
  by (auto simp: getDefaultBranch_Some)

lemma resolve_base_explicit: "b \<noteq> [] \<Longrightarrow> resolve_base m (Some b) w = b"
  by (simp add: resolve_base_def or_else_def)

lemma resolve_base_saved:
  "\<not> truthy baseBranch \<Longrightarrow> getDefaultBranch (configManager m) w = Some d \<Longrightarrow>
   resolve_base m baseBranch w = d"
  using getDefaultBranch_truthy [of "configManager m" w d]
  by (auto simp: resolve_base_def or_else_def truthy_def split: option.splits)

lemma resolve_base_static:
  "\<not> truthy baseBranch \<Longrightarrow> getDefaultBranch (configManager m) w = None \<Longrightarrow>
   resolve_base m baseBranch w = this_defaultBranch m"
  by (auto simp: resolve_base_def or_else_def truthy_def split: option.splits)

lemma createBranch_commands:
  assumes "existsSync w (barePath m)" "\<not> existsSync w (path_join env (repositoryPath m) b)"
  shows "\<exists>rest. trace (snd (createBranch env m b baseBranch pullLatest w))
            = trace w @ (if pullLatest then [cmd_fetch_origin m] else [])
                @ [cmd_fetch_base m (resolve_base m baseBranch w)] @ rest
          \<and> (rest = [] \<and> (\<exists>e. fst (createBranch env m b baseBranch pullLatest w) = Inl e)
              \<or> rest = [cmd_worktree_add_b m b (path_join env (repositoryPath m) b)
                          (resolve_base m baseBranch w)])"
proof -
  let ?base = "resolve_base m baseBranch w"
  let ?w1 = "if pullLatest then snd (execAsync env (cmd_fetch_origin m) w) else w"
  have t1: "trace ?w1 = trace w @ (if pullLatest then [cmd_fetch_origin m] else [])"
    by (simp add: execAsync_trace)
  obtain r2 w2 where e2: "execAsync env (cmd_fetch_base m ?base) ?w1 = (r2, w2)" by fastforce
  have t2: "trace w2 = trace ?w1 @ [cmd_fetch_base m ?base]"
    using execAsync_trace [of env "cmd_fetch_base m ?base" ?w1] e2 by simp
  obtain r3 w3 where e3: "execAsync env
      (cmd_worktree_add_b m b (path_join env (repositoryPath m) b) ?base) w2 = (r3, w3)"
    by fastforce
  have t3: "trace w3 = trace w2
      @ [cmd_worktree_add_b m b (path_join env (repositoryPath m) b) ?base]"
    using execAsync_trace [of env _ w2] e3 by (metis snd_conv)
  show ?thesis
  proof (cases r2)
    case (Inl e)
    then have "createBranch env m b baseBranch pullLatest w
                 = (Inl (''Failed to create branch: '' @ error_toString e), w2)"
      using assms e2 by (simp add: createBranch_def createBranch_try_def Let_def rethrow_def)
    then show ?thesis using t1 t2 by auto
  next
    case (Inr out0)
    then have "snd (createBranch env m b baseBranch pullLatest w) = w3"
      using assms e2 e3
      by (cases r3) (simp_all add: createBranch_def createBranch_try_def Let_def rethrow_def)
    then show ?thesis using t1 t2 t3 by auto
  qed
qed

lemma createBranch_success_last:
  assumes "fst (createBranch env m b baseBranch pullLatest w) = Inr ()"
  shows "existsSync w (barePath m) \<and> \<not> existsSync w (path_join env (repositoryPath m) b)
         \<and> trace (snd (createBranch env m b baseBranch pullLatest w))
            = trace w @ (if pullLatest then [cmd_fetch_origin m] else [])
                @ [cmd_fetch_base m (resolve_base m baseBranch w),
                   cmd_worktree_add_b m b (path_join env (repositoryPath m) b)
                     (resolve_base m baseBranch w)]"
proof -
  have bare: "existsSync w (barePath m)"
    using assms by (auto simp: createBranch_def createBranch_try_def rethrow_def split: if_splits)
  have nowt: "\<not> existsSync w (path_join env (repositoryPath m) b)"
    using assms bare
    by (auto simp: createBranch_def createBranch_try_def rethrow_def Let_def split: if_splits)
  from createBranch_commands [OF bare nowt, of baseBranch pullLatest]
  show ?thesis using assms bare nowt by auto
qed

lemma createBranch_exists:
  assumes "existsSync w (path_join env (repositoryPath m) b)"
  shows "createBranch env m b baseBranch pullLatest w =
           (if existsSync w (barePath m)
            then Inl (''Failed to create branch: Error: Worktree for branch '' @ b @ '' already exists'')
            else Inl ''Failed to create branch: Error: Repository not found. Please clone first.'',
            w)"
  using assms
  by (simp add: createBranch_def createBranch_try_def rethrow_def error_toString_def Let_def)

text \<open>
  Claim C3. The base branch of \<open>createBranch\<close> is the explicit argument when one is
  given (a non-empty string), otherwise the default branch stored by the Configuration
  Store when there is one (the configuration file holds an object with a non-empty
  \<^verbatim>\<open>defaultBranch\<close>), otherwise the default branch the manager keeps in memory, which
  is \<^verbatim>\<open>main\<close> for a manager built without one. When the two existence checks pass, the
  commands run are the optional fetch, the fetch of that base, and then the creation of
  the worktree from \<^verbatim>\<open>origin/<base>\<close>; a call that succeeds has run all of them.
\<close>

theorem createBranch_base_priority:
  "(b0 \<noteq> [] \<longrightarrow> resolve_base m (Some b0) w = b0)
   \<and> (\<not> truthy baseBranch \<and> getDefaultBranch (configManager m) w = Some d
        \<longrightarrow> resolve_base m baseBranch w = d)
   \<and> (\<not> truthy baseBranch \<and> getDefaultBranch (configManager m) w = None
        \<longrightarrow> resolve_base m baseBranch w = this_defaultBranch m)
   \<and> (getDefaultBranch (configManager m) w = Some d
        \<longleftrightarrow> (\<exists>obj. files w (configPath (configManager m)) = Some (File (Json obj))
                   \<and> obj ''defaultBranch'' = Some d \<and> d \<noteq> []))
   \<and> (config_defaultBranch config = None
        \<longrightarrow> this_defaultBranch (new_WorktreeManager env config) = ''main'')
   \<and> (existsSync w (barePath m) \<and> \<not> existsSync w (path_join env (repositoryPath m) b)
        \<longrightarrow> (\<exists>rest. trace (snd (createBranch env m b baseBranch pullLatest w))
                      = trace w @ (if pullLatest then [cmd_fetch_origin m] else [])
                          @ [cmd_fetch_base m (resolve_base m baseBranch w)] @ rest
                    \<and> (rest = [] \<and> (\<exists>e. fst (createBranch env m b baseBranch pullLatest w) = Inl e)
                        \<or> rest = [cmd_worktree_add_b m b (path_join env (repositoryPath m) b)
                                    (resolve_base m baseBranch w)])))
   \<and> (fst (createBranch env m b baseBranch pullLatest w) = Inr ()
        \<longrightarrow> trace (snd (createBranch env m b baseBranch pullLatest w))
              = trace w @ (if pullLatest then [cmd_fetch_origin m] else [])
                  @ [cmd_fetch_base m (resolve_base m baseBranch w),
                     cmd_worktree_add_b m b (path_join env (repositoryPath m) b)
                       (resolve_base m baseBranch w)])"
proof -
  have s: "this_defaultBranch (new_WorktreeManager env config) = ''main''"
    if "config_defaultBranch config = None"
    using that by (simp add: new_WorktreeManager_def or_else_def Let_def)
  show ?thesis
    using resolve_base_explicit [of b0 m w] resolve_base_saved [of baseBranch m w d]
      resolve_base_static [of baseBranch m w] getDefaultBranch_Some [of "configManager m" w d]
      s createBranch_commands [of w m env b baseBranch pullLatest]
      createBranch_success_last [of env m b baseBranch pullLatest w]
    by (intro conjI impI) (blast | simp)+
qed

text \<open>
  The theorem at the cloned workspace, whose stored default branch is \<^verbatim>\<open>develop\<close>:
  without a base argument the new branch \<^verbatim>\<open>feature\<close> starts from
  \<^verbatim>\<open>origin/develop\<close>.
\<close>

theorem createBranch_base_priority_witness:
  "getDefaultBranch (configManager project_manager) cloned_world = Some ''develop''
   \<and> resolve_base project_manager (Some ''release'') cloned_world = ''release''
   \<and> resolve_base project_manager None cloned_world = ''develop''
   \<and> resolve_base project_manager None half_cloned_world = ''main''
   \<and> fst (createBranch branching_env project_manager ''feature'' None False cloned_world) = Inr ()
   \<and> trace (snd (createBranch branching_env project_manager ''feature'' None False cloned_world))
       = [cmd_fetch_base project_manager ''develop'',
          in_bare project_manager
            (''git worktree add -b feature '' @ [CHR 0x22] @ ''/work/repositories/project/feature''
               @ [CHR 0x22] @ '' origin/develop'')]"
proof -
  let ?m = project_manager
  have g1: "getDefaultBranch (configManager ?m) cloned_world = Some ''develop''"
    by (simp add: getDefaultBranch_def load_def existsSync_def readFileSync_def JSON_parse_def
        truthy_def cloned_world_def project_manager_simps)
  have g2: "getDefaultBranch (configManager ?m) half_cloned_world = None"
    by (simp add: getDefaultBranch_def load_def existsSync_def half_cloned_world_def
        project_manager_simps)
  have n: "\<not> truthy None" "''release'' \<noteq> []" by (simp_all add: truthy_def)
  have c: "config_defaultBranch \<lparr>config_baseDir = ''/work/repositories'',
             config_repositoryName = ''project'', config_defaultBranch = None\<rparr> = None"
    by simp
  have st: "this_defaultBranch ?m = this_defaultBranch (new_WorktreeManager (posix_env [])
             \<lparr>config_baseDir = ''/work/repositories'',
               config_repositoryName = ''project'', config_defaultBranch = None\<rparr>)"
    by (simp add: project_manager_def)
  have p: "path_join branching_env (repositoryPath ?m) ''feature''
             = ''/work/repositories/project/feature''"
    by (simp add: branching_env_def posix_env_simps project_manager_simps)
  have ex: "existsSync cloned_world (barePath ?m)
            \<and> \<not> existsSync cloned_world (path_join branching_env (repositoryPath ?m) ''feature'')"
    unfolding p by (simp add: existsSync_def cloned_world_def project_manager_simps)
  have ok: "fst (createBranch branching_env ?m ''feature'' None False cloned_world) = Inr ()"
    using ex g1 unfolding p
    by (simp add: createBranch_def createBranch_try_def rethrow_def Let_def execAsync_def
        resolve_base_def or_else_def branching_env_def posix_env_simps table_tool_def
        project_manager_simps cmd_fetch_base_def cmd_worktree_add_b_def in_bare_def)
  have cmd: "cmd_worktree_add_b ?m ''feature'' ''/work/repositories/project/feature'' ''develop''
      = in_bare ?m (''git worktree add -b feature '' @ [CHR 0x22]
           @ ''/work/repositories/project/feature'' @ [CHR 0x22] @ '' origin/develop'')"
    by (simp add: cmd_worktree_add_b_def)
  have tr: "trace cloned_world = []" by (simp add: cloned_world_def)
  note thm1 = createBranch_base_priority [where ?b0.0 = "''release''" and m = ?m
      and w = cloned_world and baseBranch = None and d = "''develop''"
      and config = "\<lparr>config_baseDir = ''/work/repositories'',
               config_repositoryName = ''project'', config_defaultBranch = None\<rparr>"
      and env = branching_env and b = "''feature''" and pullLatest = False]
  note thm2 = createBranch_base_priority [where ?b0.0 = "''release''" and m = ?m
      and w = half_cloned_world and baseBranch = None and d = "''develop''"
      and config = "\<lparr>config_baseDir = ''/work/repositories'',
               config_repositoryName = ''project'', config_defaultBranch = None\<rparr>"
      and env = "posix_env []" and b = "''feature''" and pullLatest = False]
  have r1: "resolve_base ?m (Some ''release'') cloned_world = ''release''"
    using thm1 n by blast
  have r2: "resolve_base ?m None cloned_world = ''develop''"
    using thm1 n g1 by blast
  have r3: "resolve_base ?m None half_cloned_world = ''main''"
    using thm2 n g2 c st by (simp add: project_manager_def)
  have r4: "trace (snd (createBranch branching_env ?m ''feature'' None False cloned_world))
       = trace cloned_world @ (if False then [cmd_fetch_origin ?m] else [])
           @ [cmd_fetch_base ?m (resolve_base ?m None cloned_world),
              cmd_worktree_add_b ?m ''feature'' (path_join branching_env (repositoryPath ?m) ''feature'')
                (resolve_base ?m None cloned_world)]"
    using thm1 ok by blast
  show ?thesis using g1 r1 r2 r3 ok r4 cmd tr p by simp
qed

section \<open>Theorems: createBranch on an existing worktree directory\<close>

lemma createBranch_repository_first:
  assumes "\<not> existsSync w (barePath m)"
  shows "createBranch env m b baseBranch pullLatest w
           = (Inl ''Failed to create branch: Error: Repository not found. Please clone first.'', w)"
  using assms
  by (simp add: createBranch_def createBranch_try_def rethrow_def error_toString_def)

text \<open>
  Claim C4. In a cloned workspace (the bare storage exists, which \<open>createBranch\<close>
  checks first), a call for a branch whose worktree directory exists fails with the
  worktree-already-exists error, for every branch name, base branch and fetch option.
  No command is run after the check, nor before it: the trace of commands and the whole
  world are as they were.
\<close>

theorem createBranch_existing_worktree:
  assumes "existsSync w (barePath m)"
    and "existsSync w (path_join env (repositoryPath m) b)"
  shows "createBranch env m b baseBranch pullLatest w
           = (Inl (''Failed to create branch: Error: Worktree for branch '' @ b
                    @ '' already exists''), w)
         \<and> trace (snd (createBranch env m b baseBranch pullLatest w)) = trace w
         \<and> files (snd (createBranch env m b baseBranch pullLatest w)) = files w"
  using assms createBranch_exists [OF assms(2), of baseBranch pullLatest] by simp

text \<open>
  The theorem at the cloned workspace, for the branch \<^verbatim>\<open>main\<close> whose worktree is
  there, with a fetch asked for and with a tool that would carry out every command.
\<close>

theorem createBranch_existing_worktree_witness:
  "existsSync cloned_world (barePath project_manager)
   \<and> existsSync cloned_world (path_join branching_env (repositoryPath project_manager) ''main'')
   \<and> createBranch branching_env project_manager ''main'' None True cloned_world
       = (Inl ''Failed to create branch: Error: Worktree for branch main already exists'',
          cloned_world)
   \<and> trace (snd (createBranch branching_env project_manager ''main'' None True cloned_world)) = []"
proof -
  have h1: "existsSync cloned_world (path_join branching_env (repositoryPath project_manager) ''main'')"
    by (simp add: existsSync_def cloned_world_def project_manager_simps branching_env_def
        posix_env_simps)
  have h2: "existsSync cloned_world (barePath project_manager)"
    by (simp add: existsSync_def cloned_world_def project_manager_simps)
  have tr: "trace cloned_world = []" by (simp add: cloned_world_def)
  show ?thesis
    using h1 h2 tr createBranch_existing_worktree [OF h2 h1, of None True] by simp
qed

section \<open>Theorems: clone\<close>

lemma mkdirSync_keeps:
  assumes "mkdirSync env p w = Inr w1"
  shows "trace w1 = trace w" and "\<And>q. existsSync w q \<Longrightarrow> files w1 q = files w q"
    and "\<And>q. existsSync w q \<Longrightarrow> existsSync w1 q"
  using assms by (auto simp: mkdirSync_def existsSync_def split: if_splits)

lemma mkdirSync_creates:
  assumes "mkdirSync env p w = Inr w1" "existsSync w1 q" "\<not> existsSync w q"
  shows "q = p \<or> q \<in> set (ancestors env p)"
  using assms by (auto simp: mkdirSync_def existsSync_def split: if_splits)

lemma clone_exists_base:
  assumes "existsSync w (repositoryPath m)" "existsSync w (baseDir m)"
  shows "clone env m url w =
           (Inl (''Failed to clone repository: Error: Repository directory already exists: ''
                  @ repositoryPath m), m, w)"
  using assms by (simp add: clone_def clone_try_def rethrow_def error_toString_def)

lemma clone_exists_any:
  assumes "existsSync w (repositoryPath m)"
  shows "(\<exists>e. fst (clone env m url w) = Inl e)
         \<and> fst (snd (clone env m url w)) = m
         \<and> trace (snd (snd (clone env m url w))) = trace w
         \<and> (\<forall>p. existsSync w p \<longrightarrow> files (snd (snd (clone env m url w))) p = files w p)
         \<and> (\<forall>p. existsSync (snd (snd (clone env m url w))) p \<and> \<not> existsSync w p
                \<longrightarrow> p = baseDir m \<or> p \<in> set (ancestors env (baseDir m)))"
proof (cases "existsSync w (baseDir m)")
  case True
  then show ?thesis using clone_exists_base [OF assms True, of env url] by simp
next
  case False
  show ?thesis
  proof (cases "mkdirSync env (baseDir m) w")
    case (Inl e)
    then have "clone env m url w = (Inl (''Failed to clone repository: '' @ error_toString e), m, w)"
      using False by (simp add: clone_def clone_try_def rethrow_def)
    then show ?thesis by simp
  next
    case (Inr w1)
    have "existsSync w1 (repositoryPath m)" using mkdirSync_keeps(3) [OF Inr assms] .
    then have "clone env m url w =
           (Inl (''Failed to clone repository: Error: Repository directory already exists: ''
                  @ repositoryPath m), m, w1)"
      using False Inr by (simp add: clone_def clone_try_def rethrow_def error_toString_def)
    then show ?thesis using mkdirSync_keeps(1,2) [OF Inr] mkdirSync_creates [OF Inr] by auto
  qed
qed

text \<open>
  Claim C2. When the workspace directory exists, \<open>clone\<close> fails, runs no command, and
  leaves every path that exists as it is; the manager is unchanged too. The only paths
  it can create are a missing base directory and the directories above it, which are
  made before the check. When the base directory exists (the workspace directory lies
  inside it), the error is the already-exists error and the whole world is unchanged.
\<close>

theorem clone_existing_workspace:
  assumes "existsSync w (repositoryPath m)"
  shows "(\<exists>e. fst (clone env m url w) = Inl e)
         \<and> fst (snd (clone env m url w)) = m
         \<and> trace (snd (snd (clone env m url w))) = trace w
         \<and> (\<forall>p. existsSync w p \<longrightarrow> files (snd (snd (clone env m url w))) p = files w p)
         \<and> (\<forall>p. existsSync (snd (snd (clone env m url w))) p \<and> \<not> existsSync w p
                \<longrightarrow> p = baseDir m \<or> p \<in> set (ancestors env (baseDir m)))
         \<and> (existsSync w (baseDir m) \<longrightarrow>
              clone env m url w =
                (Inl (''Failed to clone repository: Error: Repository directory already exists: ''
                       @ repositoryPath m), m, w))"
  using clone_exists_any [OF assms, of env url] clone_exists_base [OF assms, of env url]
  by blast

text \<open>The theorem at the cloned workspace, with the tool that would clone.\<close>

theorem clone_existing_workspace_witness:
  "existsSync cloned_world (repositoryPath project_manager)
   \<and> existsSync cloned_world (baseDir project_manager)
   \<and> existsSync cloned_world ''/work/repositories/project/main''
   \<and> clone cloning_env project_manager project_url cloned_world =
        (Inl ''Failed to clone repository: Error: Repository directory already exists: /work/repositories/project'',
         project_manager, cloned_world)
   \<and> trace (snd (snd (clone cloning_env project_manager project_url cloned_world))) = []
   \<and> files (snd (snd (clone cloning_env project_manager project_url cloned_world)))
         ''/work/repositories/project/main'' = Some Dir"
proof -
  have h1: "existsSync cloned_world (repositoryPath project_manager)"
    by (simp add: existsSync_def cloned_world_def project_manager_simps)
  have h2: "existsSync cloned_world (baseDir project_manager)"
    by (simp add: existsSync_def cloned_world_def project_manager_simps)
  have h3: "existsSync cloned_world ''/work/repositories/project/main''"
    by (simp add: existsSync_def cloned_world_def)
  have f: "files cloned_world ''/work/repositories/project/main'' = Some Dir"
    and t: "trace cloned_world = []"
    by (simp_all add: cloned_world_def)
  show ?thesis
    using h1 h2 h3 f t
      clone_existing_workspace [OF h1, of cloning_env project_url]
    by (simp add: project_manager_simps)
qed

section \<open>Theorems: the default branch recorded by clone\<close>

lemma clone_success_steps:
  assumes "clone env m url w = (Inr (), m', w')"
  shows "\<exists>w1 w2 out0 w3 actual w4 w5 out1.
           (if \<not> existsSync w (baseDir m) then mkdirSync env (baseDir m) w else Inr w) = Inr w1
         \<and> \<not> existsSync w1 (repositoryPath m)
         \<and> mkdirSync env (repositoryPath m) w1 = Inr w2
         \<and> execAsync env (cmd_clone_bare m url) w2 = (Inr out0, w3)
         \<and> detect_default_branch env m w3 = (actual, w4)
         \<and> m' = m\<lparr>this_defaultBranch := actual\<rparr>
         \<and> save env (configManager m) \<lparr>defaultBranch = actual, repositoryUrl = url\<rparr> w4 = Inr w5
         \<and> execAsync env (cmd_worktree_add m' (path_join env (repositoryPath m) actual) actual) w5
             = (Inr out1, w')"
proof -
  from assms have t: "clone_try env m url w = (Inr (), m', w')"
    by (auto simp: clone_def rethrow_def split: prod.splits sum.splits)
  obtain w1 where w1: "(if \<not> existsSync w (baseDir m) then mkdirSync env (baseDir m) w else Inr w) = Inr w1"
    using t by (cases "if \<not> existsSync w (baseDir m) then mkdirSync env (baseDir m) w else Inr w")
      (simp_all add: clone_try_def)
  have ne: "\<not> existsSync w1 (repositoryPath m)"
    using t w1 by (auto simp: clone_try_def)
  obtain w2 where w2: "mkdirSync env (repositoryPath m) w1 = Inr w2"
    using t w1 ne by (cases "mkdirSync env (repositoryPath m) w1") (simp_all add: clone_try_def)
  obtain r3 w3 where e3: "execAsync env (cmd_clone_bare m url) w2 = (r3, w3)" by fastforce
  obtain out0 where r3: "r3 = Inr out0"
    using t w1 ne w2 e3 by (cases r3) (simp_all add: clone_try_def)
  obtain actual w4 where d: "detect_default_branch env m w3 = (actual, w4)" by fastforce
  let ?m' = "m\<lparr>this_defaultBranch := actual\<rparr>"
  obtain w5 where s: "save env (configManager m) \<lparr>defaultBranch = actual, repositoryUrl = url\<rparr> w4 = Inr w5"
    using t w1 ne w2 e3 r3 d
    by (cases "save env (configManager m) \<lparr>defaultBranch = actual, repositoryUrl = url\<rparr> w4")
      (simp_all add: clone_try_def Let_def)
  obtain r6 w6 where e6: "execAsync env
      (cmd_worktree_add ?m' (path_join env (repositoryPath m) actual) actual) w5 = (r6, w6)"
    by fastforce
  have "m' = ?m' \<and> w' = w6 \<and> (\<exists>out1. r6 = Inr out1)"
    using t w1 ne w2 e3 r3 d s e6 by (cases r6) (simp_all add: clone_try_def Let_def)
  then show ?thesis using w1 ne w2 e3 r3 d s e6 by blast
qed

lemma save_load:
  assumes "save env cm \<lparr>defaultBranch = b, repositoryUrl = u\<rparr> w = Inr w5"
  shows "files w5 (configPath cm) = Some (File (Json [''defaultBranch'' \<mapsto> b, ''repositoryUrl'' \<mapsto> u]))"
  using assms by (auto simp: save_def writeFileSync_def JSON_stringify_def split: if_splits)

lemma load_of_file:
  "files w (configPath cm) = Some (File (Json obj)) \<Longrightarrow> load cm w = Some obj"
  by (simp add: load_def existsSync_def readFileSync_def JSON_parse_def)

lemma getDefaultBranch_of_file:
  "files w (configPath cm) = Some (File (Json [''defaultBranch'' \<mapsto> b, ''repositoryUrl'' \<mapsto> u])) \<Longrightarrow>
   getDefaultBranch cm w = (if b \<noteq> [] then Some b else None)"
  by (simp add: getDefaultBranch_def load_of_file truthy_def)

lemma detect_tier_a:
  "execAsync env (cmd_set_head m) x = (Inr o1, x1) \<Longrightarrow>
   execAsync env (cmd_symbolic_ref m) x1 = (Inr out, x2) \<Longrightarrow>
   detect_default_branch env m x = (trim out, x2)"
  by (simp add: detect_default_branch_def)

lemma detect_tier_a_fails1:
  "execAsync env (cmd_set_head m) x = (Inl e, x1) \<Longrightarrow>
   detect_default_branch env m x = detect_fallback env m x1"
  by (simp add: detect_default_branch_def)

lemma detect_tier_a_fails2:
  "execAsync env (cmd_set_head m) x = (Inr o1, x1) \<Longrightarrow>
   execAsync env (cmd_symbolic_ref m) x1 = (Inl e, x2) \<Longrightarrow>
   detect_default_branch env m x = detect_fallback env m x2"
  by (simp add: detect_default_branch_def)

lemma detect_tier_b:
  "execAsync env (cmd_branch_r m) y = (Inr branches, y1) \<Longrightarrow>
   detect_fallback env m y =
     (if js_includes branches ''origin/main'' then ''main''
      else if js_includes branches ''origin/master'' then ''master''
      else this_defaultBranch m, y1)"
  by (simp add: detect_fallback_def)

lemma detect_tier_c:
  "execAsync env (cmd_branch_r m) y = (Inl e, y1) \<Longrightarrow>
   detect_fallback env m y = (this_defaultBranch m, y1)"
  by (simp add: detect_fallback_def)

lemma clone_records:
  assumes "clone env m url w = (Inr (), m', w')"
    and "\<forall>c x. snd (tool env c x) (configPath (configManager m)) = files x (configPath (configManager m))"
  shows "\<exists>w1 w2 out0 w3 actual w4.
           (if \<not> existsSync w (baseDir m) then mkdirSync env (baseDir m) w else Inr w) = Inr w1
         \<and> mkdirSync env (repositoryPath m) w1 = Inr w2
         \<and> execAsync env (cmd_clone_bare m url) w2 = (Inr out0, w3)
         \<and> detect_default_branch env m w3 = (actual, w4)
         \<and> load (configManager m') w' = Some [''defaultBranch'' \<mapsto> actual, ''repositoryUrl'' \<mapsto> url]
         \<and> getDefaultBranch (configManager m') w' = (if actual \<noteq> [] then Some actual else None)
         \<and> this_defaultBranch m' = actual"
proof -
  obtain w1 w2 out0 w3 actual w4 w5 out1 where
    s: "(if \<not> existsSync w (baseDir m) then mkdirSync env (baseDir m) w else Inr w) = Inr w1"
       "mkdirSync env (repositoryPath m) w1 = Inr w2"
       "execAsync env (cmd_clone_bare m url) w2 = (Inr out0, w3)"
       "detect_default_branch env m w3 = (actual, w4)"
       "m' = m\<lparr>this_defaultBranch := actual\<rparr>"
       "save env (configManager m) \<lparr>defaultBranch = actual, repositoryUrl = url\<rparr> w4 = Inr w5"
       "execAsync env (cmd_worktree_add m' (path_join env (repositoryPath m) actual) actual) w5
             = (Inr out1, w')"
    using clone_success_steps [OF assms(1)] by blast
  let ?cp = "configPath (configManager m)"
  have "files w' ?cp = files w5 ?cp"
    using execAsync_files [OF s(7)] assms(2) by simp
  then have f: "files w' ?cp = Some (File (Json [''defaultBranch'' \<mapsto> actual, ''repositoryUrl'' \<mapsto> url]))"
    using save_load [OF s(6)] by simp
  have cm: "configManager m' = configManager m" using s(5) by simp
  have "load (configManager m') w' = Some [''defaultBranch'' \<mapsto> actual, ''repositoryUrl'' \<mapsto> url]"
    unfolding cm using f by (rule load_of_file)
  moreover have "getDefaultBranch (configManager m') w' = (if actual \<noteq> [] then Some actual else None)"
    unfolding cm using f by (rule getDefaultBranch_of_file)
  moreover have "this_defaultBranch m' = actual" using s(5) by simp
  ultimately show ?thesis using s(1-4) by blast
qed

text \<open>
  What a successful \<open>clone\<close> records. A \<open>clone\<close> that succeeds has made the
  directories, run the bare clone and
  then found the default branch in the world the bare clone left. Provided the tool does
  not touch the configuration file, the configuration read back afterwards is exactly
  \<^verbatim>\<open>{defaultBranch: <found>, repositoryUrl: <url>}\<close>, \<open>getDefaultBranch\<close> returns the
  branch found (a name, that is a non-empty string), and the manager keeps it too. The
  branch is found in three tiers: when the two commands that ask for the remote's
  symbolic HEAD succeed, it is the trimmed answer, so that \<open>getDefaultBranch\<close> returns
  that answer and not the static default; when one of them fails, it is \<^verbatim>\<open>main\<close> if
  the listing of remote branches mentions \<^verbatim>\<open>origin/main\<close>, else \<^verbatim>\<open>master\<close> if it
  mentions \<^verbatim>\<open>origin/master\<close>; when the listing fails or mentions neither, it is the
  manager's default, \<^verbatim>\<open>main\<close> for a manager built without one.
\<close>

lemma clone_records_resolved_branch:
  assumes "clone env m url w = (Inr (), m', w')"
    and "\<forall>c x. snd (tool env c x) (configPath (configManager m)) = files x (configPath (configManager m))"
  shows "(\<exists>w1 w2 out0 w3 actual w4.
            (if \<not> existsSync w (baseDir m) then mkdirSync env (baseDir m) w else Inr w) = Inr w1
          \<and> mkdirSync env (repositoryPath m) w1 = Inr w2
          \<and> execAsync env (cmd_clone_bare m url) w2 = (Inr out0, w3)
          \<and> detect_default_branch env m w3 = (actual, w4)
          \<and> load (configManager m') w' = Some [''defaultBranch'' \<mapsto> actual, ''repositoryUrl'' \<mapsto> url]
          \<and> getDefaultBranch (configManager m') w' = (if actual \<noteq> [] then Some actual else None)
          \<and> this_defaultBranch m' = actual
          \<and> (\<forall>o1 x1 out x2.
                execAsync env (cmd_set_head m) w3 = (Inr o1, x1)
                \<and> execAsync env (cmd_symbolic_ref m) x1 = (Inr out, x2) \<and> trim out \<noteq> []
                \<longrightarrow> getDefaultBranch (configManager m') w' = Some (trim out)))
         \<and> (execAsync env (cmd_set_head m) x = (Inr o1, x1)
              \<and> execAsync env (cmd_symbolic_ref m) x1 = (Inr out, x2)
              \<longrightarrow> detect_default_branch env m x = (trim out, x2))
         \<and> (execAsync env (cmd_set_head m) x = (Inl e, x1)
              \<longrightarrow> detect_default_branch env m x = detect_fallback env m x1)
         \<and> (execAsync env (cmd_set_head m) x = (Inr o1, x1)
              \<and> execAsync env (cmd_symbolic_ref m) x1 = (Inl e, x2)
              \<longrightarrow> detect_default_branch env m x = detect_fallback env m x2)
         \<and> (execAsync env (cmd_branch_r m) y = (Inr branches, y1)
              \<longrightarrow> detect_fallback env m y =
                    (if js_includes branches ''origin/main'' then ''main''
                     else if js_includes branches ''origin/master'' then ''master''
                     else this_defaultBranch m, y1))
         \<and> (execAsync env (cmd_branch_r m) y = (Inl e, y1)
              \<longrightarrow> detect_fallback env m y = (this_defaultBranch m, y1))
         \<and> (config_defaultBranch config = None
              \<longrightarrow> this_defaultBranch (new_WorktreeManager env config) = ''main'')"
proof -
  obtain w1 w2 out0 w3 actual w4 where
    s: "(if \<not> existsSync w (baseDir m) then mkdirSync env (baseDir m) w else Inr w) = Inr w1"
       "mkdirSync env (repositoryPath m) w1 = Inr w2"
       "execAsync env (cmd_clone_bare m url) w2 = (Inr out0, w3)"
       "detect_default_branch env m w3 = (actual, w4)"
       "load (configManager m') w' = Some [''defaultBranch'' \<mapsto> actual, ''repositoryUrl'' \<mapsto> url]"
       "getDefaultBranch (configManager m') w' = (if actual \<noteq> [] then Some actual else None)"
       "this_defaultBranch m' = actual"
    using clone_records [OF assms] by blast
  have a: "getDefaultBranch (configManager m') w' = Some (trim out)"
    if "execAsync env (cmd_set_head m) w3 = (Inr o1, x1)"
       "execAsync env (cmd_symbolic_ref m) x1 = (Inr out, x2)" "trim out \<noteq> []"
    for o1 x1 out x2
    using detect_tier_a [OF that(1,2)] s(4,6) that(3) by simp
  have first: "\<exists>w1 w2 out0 w3 actual w4.
            (if \<not> existsSync w (baseDir m) then mkdirSync env (baseDir m) w else Inr w) = Inr w1
          \<and> mkdirSync env (repositoryPath m) w1 = Inr w2
          \<and> execAsync env (cmd_clone_bare m url) w2 = (Inr out0, w3)
          \<and> detect_default_branch env m w3 = (actual, w4)
          \<and> load (configManager m') w' = Some [''defaultBranch'' \<mapsto> actual, ''repositoryUrl'' \<mapsto> url]
          \<and> getDefaultBranch (configManager m') w' = (if actual \<noteq> [] then Some actual else None)
          \<and> this_defaultBranch m' = actual
          \<and> (\<forall>o1 x1 out x2.
                execAsync env (cmd_set_head m) w3 = (Inr o1, x1)
                \<and> execAsync env (cmd_symbolic_ref m) x1 = (Inr out, x2) \<and> trim out \<noteq> []
                \<longrightarrow> getDefaultBranch (configManager m') w' = Some (trim out))"
    using s a by blast
  have st: "this_defaultBranch (new_WorktreeManager env config) = ''main''"
    if "config_defaultBranch config = None"
    using that by (simp add: new_WorktreeManager_def or_else_def Let_def)
  show ?thesis
    using first detect_tier_a [of env m x o1 x1 out x2] detect_tier_a_fails1 [of env m x e x1]
      detect_tier_a_fails2 [of env m x o1 x1 e x2] detect_tier_b [of env m y branches y1]
      detect_tier_c [of env m y e y1] st
    by (intro conjI impI) (blast | simp)+
qed

lemma cloning_env_exec:
  "execAsync cloning_env (cmd_set_head project_manager) x
     = (Inr ''origin/HEAD set to develop\<newline>'',
        \<lparr>files = files x, trace = trace x @ [cmd_set_head project_manager]\<rparr>)"
  "execAsync cloning_env (cmd_symbolic_ref project_manager) x
     = (Inr ''develop\<newline>'',
        \<lparr>files = files x, trace = trace x @ [cmd_symbolic_ref project_manager]\<rparr>)"
  by (simp_all add: execAsync_def cloning_env_def posix_env_simps table_tool_def
      cmd_clone_bare_def cmd_set_head_def cmd_symbolic_ref_def cmd_worktree_add_def in_bare_def
      project_manager_simps project_url_def)

lemma cloning_env_ok:
  "fst (clone cloning_env project_manager project_url fresh_world) = Inr ()"
  by (simp add: clone_def clone_try_def rethrow_def Let_def execAsync_def
      detect_default_branch_def detect_fallback_def
      cloning_env_def posix_env_simps table_tool_def
      cmd_clone_bare_def cmd_set_head_def cmd_symbolic_ref_def cmd_worktree_add_def in_bare_def
      project_manager_simps project_url_def fresh_world_def
      existsSync_def mkdirSync_def isFile_def posix_ancestors_def posix_dirname_def
      save_def writeFileSync_def JSON_stringify_def trim_def isWhiteSpace_def)

lemma fallback_env_exec:
  "execAsync fallback_env (cmd_set_head project_manager) x
     = (Inl (''Command failed: '' @ cmd_set_head project_manager),
        \<lparr>files = files x, trace = trace x @ [cmd_set_head project_manager]\<rparr>)"
  "execAsync fallback_env (cmd_branch_r project_manager) x
     = (Inr ''  origin/feature\<newline>  origin/master\<newline>'',
        \<lparr>files = files x, trace = trace x @ [cmd_branch_r project_manager]\<rparr>)"
  by (simp_all add: execAsync_def fallback_env_def posix_env_simps table_tool_def
      cmd_clone_bare_def cmd_set_head_def cmd_branch_r_def cmd_worktree_add_def in_bare_def
      project_manager_simps project_url_def)

lemma fallback_env_ok:
  "fst (clone fallback_env project_manager project_url fresh_world) = Inr ()"
  by (simp add: clone_def clone_try_def rethrow_def Let_def execAsync_def
      detect_default_branch_def detect_fallback_def
      fallback_env_def posix_env_simps table_tool_def
      cmd_clone_bare_def cmd_set_head_def cmd_branch_r_def cmd_worktree_add_def in_bare_def
      project_manager_simps project_url_def fresh_world_def
      existsSync_def mkdirSync_def isFile_def posix_ancestors_def posix_dirname_def
      save_def writeFileSync_def JSON_stringify_def startsWith_def)

text \<open>
  These facts at the world in which nothing has been cloned. With the tool for which the
  remote's symbolic HEAD is \<^verbatim>\<open>develop\<close>, the clone succeeds and the stored default
  branch is \<^verbatim>\<open>develop\<close>, while the manager's static default was \<^verbatim>\<open>main\<close>. With
  the tool that cannot tell the symbolic HEAD and lists \<^verbatim>\<open>origin/master\<close>, the stored
  default branch is \<^verbatim>\<open>master\<close>.
\<close>

lemma clone_records_resolved_branch_runs:
  "fst (clone cloning_env project_manager project_url fresh_world) = Inr ()
   \<and> this_defaultBranch project_manager = ''main''
   \<and> getDefaultBranch (configManager project_manager)
        (snd (snd (clone cloning_env project_manager project_url fresh_world))) = Some ''develop''
   \<and> load (configManager project_manager)
        (snd (snd (clone cloning_env project_manager project_url fresh_world)))
       = Some [''defaultBranch'' \<mapsto> ''develop'', ''repositoryUrl'' \<mapsto> project_url]
   \<and> fst (clone fallback_env project_manager project_url fresh_world) = Inr ()
   \<and> getDefaultBranch (configManager project_manager)
        (snd (snd (clone fallback_env project_manager project_url fresh_world))) = Some ''master''"
proof -
  let ?q = "clone fallback_env project_manager project_url fresh_world"
  let ?n' = "fst (snd ?q)"
  let ?v' = "snd (snd ?q)"
  have c2: "?q = (Inr (), ?n', ?v')"
    using fallback_env_ok by (simp add: prod_eq_iff)
  have h2: "\<forall>c x. snd (tool fallback_env c x) (configPath (configManager project_manager))
             = files x (configPath (configManager project_manager))"
    by (simp add: fallback_env_def posix_env_simps table_tool_def split: option.splits)
  note second = clone_records_resolved_branch [OF c2 h2]
  from second obtain v3 found v4 where
    d2: "detect_default_branch fallback_env project_manager v3 = (found, v4)"
    and g2: "getDefaultBranch (configManager ?n') ?v' = (if found \<noteq> [] then Some found else None)"
    by blast
  let ?x1 = "\<lparr>files = files v3, trace = trace v3 @ [cmd_set_head project_manager]\<rparr>"
  let ?y1 = "\<lparr>files = files ?x1, trace = trace ?x1 @ [cmd_branch_r project_manager]\<rparr>"
  have "detect_default_branch fallback_env project_manager v3
          = detect_fallback fallback_env project_manager ?x1"
    using second [where x = v3 and ?x1.0 = ?x1
        and e = "''Command failed: '' @ cmd_set_head project_manager"]
      fallback_env_exec(1) by blast
  moreover have "detect_fallback fallback_env project_manager ?x1
          = (if js_includes ''  origin/feature\<newline>  origin/master\<newline>'' ''origin/main'' then ''main''
             else if js_includes ''  origin/feature\<newline>  origin/master\<newline>'' ''origin/master'' then ''master''
             else this_defaultBranch project_manager, ?y1)"
    using second [where y = ?x1 and ?y1.0 = ?y1
        and branches = "''  origin/feature\<newline>  origin/master\<newline>''"]
      fallback_env_exec(2) by blast
  ultimately have "found = ''master''"
    using d2 by (simp add: startsWith_def)
  then have gm: "getDefaultBranch (configManager ?n') ?v' = Some ''master''"
    using g2 by simp
  have cn: "configManager ?n' = configManager project_manager"
    using clone_success_steps [OF c2] by auto
  let ?r = "clone cloning_env project_manager project_url fresh_world"
  let ?m' = "fst (snd ?r)"
  let ?w' = "snd (snd ?r)"
  have c: "?r = (Inr (), ?m', ?w')"
    using cloning_env_ok by (simp add: prod_eq_iff)
  have h: "\<forall>c x. snd (tool cloning_env c x) (configPath (configManager project_manager))
             = files x (configPath (configManager project_manager))"
    by (simp add: cloning_env_def posix_env_simps table_tool_def split: option.splits)
  have tr: "trim ''develop\<newline>'' = ''develop''"
    by (simp add: trim_def isWhiteSpace_def)
  from clone_records_resolved_branch [OF c h]
  obtain w3 actual where
    l: "load (configManager ?m') ?w' = Some [''defaultBranch'' \<mapsto> actual, ''repositoryUrl'' \<mapsto> project_url]"
    and ga: "getDefaultBranch (configManager ?m') ?w' = (if actual \<noteq> [] then Some actual else None)"
    and g: "\<forall>o1 x1 out x2.
                execAsync cloning_env (cmd_set_head project_manager) w3 = (Inr o1, x1)
                \<and> execAsync cloning_env (cmd_symbolic_ref project_manager) x1 = (Inr out, x2)
                \<and> trim out \<noteq> []
                \<longrightarrow> getDefaultBranch (configManager ?m') ?w' = Some (trim out)"
    by blast
  have gd: "getDefaultBranch (configManager ?m') ?w' = Some ''develop''"
    using g cloning_env_exec tr by (metis list.distinct(1))
  have act: "actual = ''develop''"
    using gd ga by (simp split: if_splits)
  have cm: "configManager ?m' = configManager project_manager"
    using clone_success_steps [OF c] by auto
  show ?thesis
    using cloning_env_ok gd l act cm fallback_env_ok gm cn by (simp add: project_manager_simps)
qed

lemma maintenance_env_files:
  "files (snd (snd (clone maintenance_env project_manager project_url fresh_world)))
      ''/work/repositories/project/.worktree.json''
     = Some (File (Json [''defaultBranch'' \<mapsto> ''main'', ''repositoryUrl'' \<mapsto> project_url]))"
  by (simp add: clone_def clone_try_def rethrow_def Let_def execAsync_def
      detect_default_branch_def detect_fallback_def
      maintenance_env_def maintenance_listing_def posix_env_simps table_tool_def
      cmd_clone_bare_def cmd_set_head_def cmd_branch_r_def cmd_worktree_add_def in_bare_def
      project_manager_simps project_url_def fresh_world_def
      existsSync_def mkdirSync_def isFile_def posix_ancestors_def posix_dirname_def
      save_def writeFileSync_def JSON_stringify_def startsWith_def)

text \<open>
  Claim C1. The claim is that, when the symbolic HEAD cannot be had, the list of remote
  branches is inspected and a branch named \<^verbatim>\<open>main\<close> is preferred, then one named
  \<^verbatim>\<open>master\<close>, and the comment of the code says the same (use \<^verbatim>\<open>main\<close> or
  \<^verbatim>\<open>master\<close> based on what exists). The code tests whether the text of the listing
  contains \<^verbatim>\<open>origin/main\<close>, which a branch whose name only begins with \<^verbatim>\<open>main\<close>
  satisfies. Here the remote lists \<^verbatim>\<open>maintenance\<close> and \<^verbatim>\<open>master\<close>: no branch is
  named \<^verbatim>\<open>main\<close>, one is named \<^verbatim>\<open>master\<close>, the clone succeeds, and the branch
  recorded, and returned by \<open>getDefaultBranch\<close>, is \<^verbatim>\<open>main\<close>.
\<close>

theorem clone_takes_main_for_maintenance:
  "map trim (split_lines maintenance_listing) = [''origin/maintenance'', ''origin/master'', []]
   \<and> fst (tool maintenance_env (cmd_set_head project_manager) fresh_world)
       = Inl (''Command failed: '' @ cmd_set_head project_manager)
   \<and> fst (tool maintenance_env (cmd_branch_r project_manager) fresh_world)
       = Inr maintenance_listing
   \<and> fst (clone maintenance_env project_manager project_url fresh_world) = Inr ()
   \<and> trace (snd (snd (clone maintenance_env project_manager project_url fresh_world)))
       = [cmd_clone_bare project_manager project_url, cmd_set_head project_manager,
          cmd_branch_r project_manager,
          cmd_worktree_add project_manager ''/work/repositories/project/main'' ''main'']
   \<and> load (configManager project_manager)
        (snd (snd (clone maintenance_env project_manager project_url fresh_world)))
       = Some [''defaultBranch'' \<mapsto> ''main'', ''repositoryUrl'' \<mapsto> project_url]
   \<and> getDefaultBranch (configManager project_manager)
        (snd (snd (clone maintenance_env project_manager project_url fresh_world)))
       = Some ''main''"
proof -
  have names: "map trim (split_lines maintenance_listing)
                 = [''origin/maintenance'', ''origin/master'', []]"
    by (simp add: maintenance_listing_def trim_def isWhiteSpace_def)
  have t1: "fst (tool maintenance_env (cmd_set_head project_manager) fresh_world)
       = Inl (''Command failed: '' @ cmd_set_head project_manager)"
    and t2: "fst (tool maintenance_env (cmd_branch_r project_manager) fresh_world)
       = Inr maintenance_listing"
    by (simp_all add: maintenance_env_def posix_env_simps table_tool_def
        cmd_clone_bare_def cmd_set_head_def cmd_branch_r_def cmd_worktree_add_def in_bare_def
        project_manager_simps project_url_def)
  have ok: "fst (clone maintenance_env project_manager project_url fresh_world) = Inr ()"
    by (simp add: clone_def clone_try_def rethrow_def Let_def execAsync_def
        detect_default_branch_def detect_fallback_def
        maintenance_env_def maintenance_listing_def posix_env_simps table_tool_def
        cmd_clone_bare_def cmd_set_head_def cmd_branch_r_def cmd_worktree_add_def in_bare_def
        project_manager_simps project_url_def fresh_world_def
        existsSync_def mkdirSync_def isFile_def posix_ancestors_def posix_dirname_def
        save_def writeFileSync_def JSON_stringify_def startsWith_def)
  have tr: "trace (snd (snd (clone maintenance_env project_manager project_url fresh_world)))
       = [cmd_clone_bare project_manager project_url, cmd_set_head project_manager,
          cmd_branch_r project_manager,
          cmd_worktree_add project_manager ''/work/repositories/project/main'' ''main'']"
    by (simp add: clone_def clone_try_def rethrow_def Let_def execAsync_def
        detect_default_branch_def detect_fallback_def
        maintenance_env_def maintenance_listing_def posix_env_simps table_tool_def
        cmd_clone_bare_def cmd_set_head_def cmd_branch_r_def cmd_worktree_add_def in_bare_def
        project_manager_simps project_url_def fresh_world_def
        existsSync_def mkdirSync_def isFile_def posix_ancestors_def posix_dirname_def
        save_def writeFileSync_def JSON_stringify_def startsWith_def)
  have f: "files (snd (snd (clone maintenance_env project_manager project_url fresh_world)))
             (configPath (configManager project_manager))
     = Some (File (Json [''defaultBranch'' \<mapsto> ''main'', ''repositoryUrl'' \<mapsto> project_url]))"
    using maintenance_env_files by (simp add: project_manager_simps)
  have l: "load (configManager project_manager)
        (snd (snd (clone maintenance_env project_manager project_url fresh_world)))
       = Some [''defaultBranch'' \<mapsto> ''main'', ''repositoryUrl'' \<mapsto> project_url]"
    using f by (rule load_of_file)
  have g: "getDefaultBranch (configManager project_manager)
        (snd (snd (clone maintenance_env project_manager project_url fresh_world)))
       = Some ''main''"
    using getDefaultBranch_of_file [OF f] by simp
  show ?thesis using names t1 t2 ok tr l g by blast
qed

section \<open>Theorems: openRemoteBranch\<close>

lemma add_remote_worktree_failed_first:
  assumes "execAsync env (cmd_worktree_add_tracking m wt b) w2 = (Inl e, w3)"
  shows "add_remote_worktree env m wt b w2 =
           (case execAsync env (cmd_worktree_add m wt b) w3 of
              (Inl e2, w4) \<Rightarrow> (Inl e2, w4)
            | (Inr out1, w4) \<Rightarrow> (Inr (), w4))"
    and "trace (snd (add_remote_worktree env m wt b w2))
           = trace w2 @ [cmd_worktree_add_tracking m wt b, cmd_worktree_add m wt b]"
proof -
  show first: "add_remote_worktree env m wt b w2 =
           (case execAsync env (cmd_worktree_add m wt b) w3 of
              (Inl e2, w4) \<Rightarrow> (Inl e2, w4)
            | (Inr out1, w4) \<Rightarrow> (Inr (), w4))"
    using assms by (simp add: add_remote_worktree_def)
  have t3: "trace w3 = trace w2 @ [cmd_worktree_add_tracking m wt b]"
    using execAsync_trace [of env "cmd_worktree_add_tracking m wt b" w2] assms by simp
  obtain r4 w4 where e4: "execAsync env (cmd_worktree_add m wt b) w3 = (r4, w4)" by fastforce
  have t4: "trace w4 = trace w3 @ [cmd_worktree_add m wt b]"
    using execAsync_trace [of env "cmd_worktree_add m wt b" w3] e4 by simp
  have "snd (add_remote_worktree env m wt b w2) = w4"
    using first e4 by (cases r4) simp_all
  then show "trace (snd (add_remote_worktree env m wt b w2))
           = trace w2 @ [cmd_worktree_add_tracking m wt b, cmd_worktree_add m wt b]"
    using t3 t4 by simp
qed

lemma add_remote_worktree_ok_first:
  assumes "execAsync env (cmd_worktree_add_tracking m wt b) w2 = (Inr out0, w3)"
  shows "add_remote_worktree env m wt b w2 = (Inr (), w3)"
    and "trace w3 = trace w2 @ [cmd_worktree_add_tracking m wt b]"
  using assms execAsync_trace [of env "cmd_worktree_add_tracking m wt b" w2]
  by (simp_all add: add_remote_worktree_def)

lemma openRemoteBranch_reaches:
  assumes "existsSync w (barePath m)"
    and "\<not> existsSync w (path_join env (repositoryPath m) b)"
    and "execAsync env (cmd_fetch_all m) w = (Inr out0, w1)"
    and "listRemoteBranches env m w1 = (Inr bs, w2)"
    and "b \<in> set bs"
  shows "openRemoteBranch env m b w =
           (case add_remote_worktree env m (path_join env (repositoryPath m) b) b w2 of
              (r, w') \<Rightarrow> (rethrow ''Failed to open remote branch: '' r, w'))"
  using assms by (simp add: openRemoteBranch_def openRemoteBranch_try_def Let_def)

text \<open>
  What the inner \<^verbatim>\<open>catch\<close> does. Take a call of \<open>openRemoteBranch\<close> that gets as far
  as adding the worktree: the bare storage is there, the worktree directory is not, the fetch works
  and the remote lists the branch. When the first attempt, the one that creates the
  local branch, is rejected, with whatever message, the second command, which checks
  out the local branch of that name, is run next and its outcome is the outcome of the
  call. When the first attempt works, the second command is not run.
\<close>

lemma openRemoteBranch_retries_any_failure:
  assumes "existsSync w (barePath m)"
    and "\<not> existsSync w (path_join env (repositoryPath m) b)"
    and "execAsync env (cmd_fetch_all m) w = (Inr out0, w1)"
    and "listRemoteBranches env m w1 = (Inr bs, w2)"
    and "b \<in> set bs"
  shows "(execAsync env (cmd_worktree_add_tracking m (path_join env (repositoryPath m) b) b) w2
            = (Inl e, w3)
          \<longrightarrow> trace (snd (openRemoteBranch env m b w))
                = trace w2 @ [cmd_worktree_add_tracking m (path_join env (repositoryPath m) b) b,
                              cmd_worktree_add m (path_join env (repositoryPath m) b) b]
              \<and> openRemoteBranch env m b w
                = (case execAsync env (cmd_worktree_add m (path_join env (repositoryPath m) b) b) w3 of
                     (Inl e2, w4) \<Rightarrow> (Inl (''Failed to open remote branch: '' @ error_toString e2), w4)
                   | (Inr out2, w4) \<Rightarrow> (Inr (), w4)))
         \<and> (execAsync env (cmd_worktree_add_tracking m (path_join env (repositoryPath m) b) b) w2
            = (Inr out1, w3)
          \<longrightarrow> openRemoteBranch env m b w = (Inr (), w3)
              \<and> trace (snd (openRemoteBranch env m b w))
                = trace w2 @ [cmd_worktree_add_tracking m (path_join env (repositoryPath m) b) b])"
proof -
  let ?wt = "path_join env (repositoryPath m) b"
  note reach = openRemoteBranch_reaches [OF assms]
  have a: "trace (snd (openRemoteBranch env m b w))
                = trace w2 @ [cmd_worktree_add_tracking m ?wt b, cmd_worktree_add m ?wt b]
              \<and> openRemoteBranch env m b w
                = (case execAsync env (cmd_worktree_add m ?wt b) w3 of
                     (Inl e2, w4) \<Rightarrow> (Inl (''Failed to open remote branch: '' @ error_toString e2), w4)
                   | (Inr out2, w4) \<Rightarrow> (Inr (), w4))"
    if f: "execAsync env (cmd_worktree_add_tracking m ?wt b) w2 = (Inl e, w3)"
  proof -
    have "snd (openRemoteBranch env m b w) = snd (add_remote_worktree env m ?wt b w2)"
      using reach by (simp split: prod.splits)
    then have "trace (snd (openRemoteBranch env m b w))
                = trace w2 @ [cmd_worktree_add_tracking m ?wt b, cmd_worktree_add m ?wt b]"
      using add_remote_worktree_failed_first(2) [OF f] by simp
    moreover have "openRemoteBranch env m b w
                = (case execAsync env (cmd_worktree_add m ?wt b) w3 of
                     (Inl e2, w4) \<Rightarrow> (Inl (''Failed to open remote branch: '' @ error_toString e2), w4)
                   | (Inr out2, w4) \<Rightarrow> (Inr (), w4))"
      using reach add_remote_worktree_failed_first(1) [OF f]
      by (simp add: rethrow_def split: prod.splits sum.splits)
    ultimately show ?thesis by blast
  qed
  have b: "openRemoteBranch env m b w = (Inr (), w3)
              \<and> trace (snd (openRemoteBranch env m b w))
                = trace w2 @ [cmd_worktree_add_tracking m ?wt b]"
    if s: "execAsync env (cmd_worktree_add_tracking m ?wt b) w2 = (Inr out1, w3)"
    using reach add_remote_worktree_ok_first [OF s] by (simp add: rethrow_def)
  show ?thesis using a b by blast
qed

lemma adopting_env_exec:
  "execAsync (adopting_env first second) (cmd_fetch_all project_manager) x
     = (Inr [], \<lparr>files = files x, trace = trace x @ [cmd_fetch_all project_manager]\<rparr>)"
  "execAsync (adopting_env first second) (cmd_fetch_prune project_manager) x
     = (Inr [], \<lparr>files = files x, trace = trace x @ [cmd_fetch_prune project_manager]\<rparr>)"
  "execAsync (adopting_env first second) (cmd_ls_remote project_manager) x
     = (Inr ls_remote_one, \<lparr>files = files x, trace = trace x @ [cmd_ls_remote project_manager]\<rparr>)"
  "execAsync (adopting_env first second)
      (cmd_worktree_add_tracking project_manager ''/work/repositories/project/develop'' ''develop'') x
     = (first, \<lparr>files = files x, trace = trace x
          @ [cmd_worktree_add_tracking project_manager ''/work/repositories/project/develop'' ''develop'']\<rparr>)"
  "execAsync (adopting_env first second)
      (cmd_worktree_add project_manager ''/work/repositories/project/develop'' ''develop'') x
     = (second, \<lparr>files = files x, trace = trace x
          @ [cmd_worktree_add project_manager ''/work/repositories/project/develop'' ''develop'']\<rparr>)"
  by (simp_all add: execAsync_def adopting_env_def posix_env_simps table_tool_def
      cmd_fetch_all_def cmd_fetch_prune_def cmd_ls_remote_def cmd_worktree_add_tracking_def
      cmd_worktree_add_def in_bare_def project_manager_simps)

lemma adopting_env_list:
  assumes "existsSync x (barePath project_manager)"
  shows "listRemoteBranches (adopting_env first second) project_manager x
     = (Inr [''develop'', ''feature/x'', ''main''],
        \<lparr>files = files x,
           trace = trace x @ [cmd_fetch_prune project_manager, cmd_ls_remote project_manager]\<rparr>)"
  using assms
  by (simp add: listRemoteBranches_def listRemoteBranches_try_def rethrow_def
      adopting_env_exec ls_remote_one_branches existsSync_def)

lemma adopting_env_path:
  "path_join (adopting_env first second) (repositoryPath project_manager) ''develop''
     = ''/work/repositories/project/develop''"
  by (simp add: adopting_env_def posix_env_simps project_manager_simps)

lemma cloned_world_develop:
  "existsSync cloned_world (barePath project_manager)"
  "\<not> existsSync cloned_world ''/work/repositories/project/develop''"
  "files cloned_world (barePath project_manager) = Some Dir"
  "files cloned_world ''/work/repositories/project/develop'' = None"
  "trace cloned_world = []"
  by (simp_all add: existsSync_def cloned_world_def project_manager_simps)

text \<open>
  Claim C7. The claim is that the second attempt, which binds the worktree to the local
  branch that is there, is made only when the first attempt failed because a local
  branch of that name exists; the comment of the \<^verbatim>\<open>catch\<close> block and the line it logs
  (\<^verbatim>\<open>Local branch ... already exists\<close>) say the same. The code does not look at the
  cause. Here, at the cloned workspace, the tool rejects the first attempt for want of
  permission, a rejection that does not speak of a branch that exists, and the second
  command is run all the same, last on the trace; its rejection is what the call reports.
\<close>

theorem openRemoteBranch_retry_ignores_cause:
  "execAsync (adopting_env (Inl permission_diagnostic) (Inl permission_diagnostic))
      (cmd_worktree_add_tracking project_manager ''/work/repositories/project/develop'' ''develop'')
      \<lparr>files = files cloned_world,
         trace = [cmd_fetch_all project_manager, cmd_fetch_prune project_manager,
                  cmd_ls_remote project_manager]\<rparr>
     = (Inl permission_diagnostic,
        \<lparr>files = files cloned_world,
           trace = [cmd_fetch_all project_manager, cmd_fetch_prune project_manager,
                    cmd_ls_remote project_manager,
                    cmd_worktree_add_tracking project_manager
                      ''/work/repositories/project/develop'' ''develop'']\<rparr>)
   \<and> \<not> js_includes permission_diagnostic ''already exists''
   \<and> openRemoteBranch (adopting_env (Inl permission_diagnostic) (Inl permission_diagnostic))
        project_manager ''develop'' cloned_world
     = (Inl (''Failed to open remote branch: Error: '' @ permission_diagnostic),
        \<lparr>files = files cloned_world,
           trace = [cmd_fetch_all project_manager, cmd_fetch_prune project_manager,
                    cmd_ls_remote project_manager,
                    cmd_worktree_add_tracking project_manager
                      ''/work/repositories/project/develop'' ''develop'',
                    cmd_worktree_add project_manager
                      ''/work/repositories/project/develop'' ''develop'']\<rparr>)"
proof -
  have n: "\<not> js_includes permission_diagnostic ''already exists''"
    by (simp add: permission_diagnostic_def startsWith_def)
  have ne: "permission_diagnostic \<noteq> []" by (simp add: permission_diagnostic_def)
  have "openRemoteBranch (adopting_env (Inl permission_diagnostic) (Inl permission_diagnostic))
        project_manager ''develop'' cloned_world
     = (Inl (''Failed to open remote branch: Error: '' @ permission_diagnostic),
        \<lparr>files = files cloned_world,
           trace = [cmd_fetch_all project_manager, cmd_fetch_prune project_manager,
                    cmd_ls_remote project_manager,
                    cmd_worktree_add_tracking project_manager
                      ''/work/repositories/project/develop'' ''develop'',
                    cmd_worktree_add project_manager
                      ''/work/repositories/project/develop'' ''develop'']\<rparr>)"
    using ne
    by (simp add: openRemoteBranch_def openRemoteBranch_try_def Let_def adopting_env_path
        cloned_world_develop adopting_env_exec adopting_env_list existsSync_def
        add_remote_worktree_def rethrow_def error_toString_def)
  then show ?thesis using n by (simp add: adopting_env_exec)
qed

text \<open>
  The two runs the claim and the code agree on, at the cloned workspace: with a tool that
  rejects the first attempt because the local branch exists and accepts the second, the
  second command is run and the call succeeds; with a tool that accepts the first
  attempt, the second command is not run.
\<close>

lemma openRemoteBranch_retry_runs:
  "openRemoteBranch (adopting_env (Inl branch_exists_diagnostic) (Inr []))
        project_manager ''develop'' cloned_world
     = (Inr (),
        \<lparr>files = files cloned_world,
           trace = [cmd_fetch_all project_manager, cmd_fetch_prune project_manager,
                    cmd_ls_remote project_manager,
                    cmd_worktree_add_tracking project_manager
                      ''/work/repositories/project/develop'' ''develop'',
                    cmd_worktree_add project_manager
                      ''/work/repositories/project/develop'' ''develop'']\<rparr>)
   \<and> openRemoteBranch (adopting_env (Inr []) (Inr []))
        project_manager ''develop'' cloned_world
     = (Inr (),
        \<lparr>files = files cloned_world,
           trace = [cmd_fetch_all project_manager, cmd_fetch_prune project_manager,
                    cmd_ls_remote project_manager,
                    cmd_worktree_add_tracking project_manager
                      ''/work/repositories/project/develop'' ''develop'']\<rparr>)"
proof -
  let ?w1 = "\<lparr>files = files cloned_world, trace = [cmd_fetch_all project_manager]\<rparr>"
  let ?w2 = "\<lparr>files = files cloned_world,
               trace = [cmd_fetch_all project_manager, cmd_fetch_prune project_manager,
                        cmd_ls_remote project_manager]\<rparr>"
  let ?w3 = "\<lparr>files = files cloned_world,
               trace = [cmd_fetch_all project_manager, cmd_fetch_prune project_manager,
                        cmd_ls_remote project_manager,
                        cmd_worktree_add_tracking project_manager
                          ''/work/repositories/project/develop'' ''develop'']\<rparr>"
  have r1: "existsSync cloned_world (barePath project_manager)"
    by (simp add: cloned_world_develop)
  have r2: "\<not> existsSync cloned_world
        (path_join (adopting_env first second) (repositoryPath project_manager) ''develop'')"
    for first second
    by (simp add: adopting_env_path cloned_world_develop)
  have r3: "execAsync (adopting_env first second) (cmd_fetch_all project_manager) cloned_world
       = (Inr [], ?w1)" for first second
    by (simp add: adopting_env_exec cloned_world_develop)
  have r4: "listRemoteBranches (adopting_env first second) project_manager ?w1
       = (Inr [''develop'', ''feature/x'', ''main''], ?w2)" for first second
    by (simp add: adopting_env_list cloned_world_develop existsSync_def)
  have r5: "''develop'' \<in> set [''develop'', ''feature/x'', ''main'']" by simp
  have f: "execAsync (adopting_env first second)
             (cmd_worktree_add_tracking project_manager
                (path_join (adopting_env first second) (repositoryPath project_manager) ''develop'')
                ''develop'') ?w2 = (first, ?w3)" for first second
    by (simp add: adopting_env_path adopting_env_exec)
  show ?thesis
    using
      openRemoteBranch_retries_any_failure
        [OF r1 r2 [of "Inl branch_exists_diagnostic" "Inr []"] r3 r4 r5,
          of branch_exists_diagnostic ?w3]
      openRemoteBranch_retries_any_failure
        [OF r1 r2 [of "Inr []" "Inr []"] r3 r4 r5, of _ ?w3 "[]"]
      f [of "Inl branch_exists_diagnostic" "Inr []"] f [of "Inr []" "Inr []"]
    by (simp add: adopting_env_path adopting_env_exec)
qed

end
